theory Spec2Isabelle
  imports Complex_Main
begin

section \<open>Single-precision values\<close>

text \<open>
  A C++ \<^verbatim>\<open>float\<close> is modelled as a finite real, one of the two infinities, or NaN.
  Finite arithmetic is exact (no rounding, no overflow to infinity, one zero); the
  special values follow IEEE 754: NaN propagates through arithmetic, every ordered
  comparison with NaN is false, \<open>inf - inf\<close> and \<open>0 * inf\<close> are NaN.
\<close>

datatype fl = Fin real | PInf | NInf | NaN

fun isfinite :: "fl \<Rightarrow> bool" where
  "isfinite (Fin x) = True"
| "isfinite PInf = False"
| "isfinite NInf = False"
| "isfinite NaN = False"

fun fl_less :: "fl \<Rightarrow> fl \<Rightarrow> bool" where
  "fl_less (Fin x) (Fin y) = (x < y)"
| "fl_less (Fin x) PInf = True"
| "fl_less (Fin x) NInf = False"
| "fl_less (Fin x) NaN = False"
| "fl_less PInf b = False"
| "fl_less NInf (Fin y) = True"
| "fl_less NInf PInf = True"
| "fl_less NInf NInf = False"
| "fl_less NInf NaN = False"
| "fl_less NaN b = False"

fun fl_le :: "fl \<Rightarrow> fl \<Rightarrow> bool" where
  "fl_le (Fin x) (Fin y) = (x \<le> y)"
| "fl_le (Fin x) PInf = True"
| "fl_le (Fin x) NInf = False"
| "fl_le (Fin x) NaN = False"
| "fl_le PInf (Fin y) = False"
| "fl_le PInf PInf = True"
| "fl_le PInf NInf = False"
| "fl_le PInf NaN = False"
| "fl_le NInf (Fin y) = True"
| "fl_le NInf PInf = True"
| "fl_le NInf NInf = True"
| "fl_le NInf NaN = False"
| "fl_le NaN b = False"

fun fl_neg :: "fl \<Rightarrow> fl" where
  "fl_neg (Fin x) = Fin (- x)"
| "fl_neg PInf = NInf"
| "fl_neg NInf = PInf"
| "fl_neg NaN = NaN"

fun fl_abs :: "fl \<Rightarrow> fl" where
  "fl_abs (Fin x) = Fin \<bar>x\<bar>"
| "fl_abs PInf = PInf"
| "fl_abs NInf = PInf"
| "fl_abs NaN = NaN"

fun fl_add :: "fl \<Rightarrow> fl \<Rightarrow> fl" where
  "fl_add (Fin x) (Fin y) = Fin (x + y)"
| "fl_add (Fin x) PInf = PInf"
| "fl_add (Fin x) NInf = NInf"
| "fl_add (Fin x) NaN = NaN"
| "fl_add PInf (Fin y) = PInf"
| "fl_add PInf PInf = PInf"
| "fl_add PInf NInf = NaN"
| "fl_add PInf NaN = NaN"
| "fl_add NInf (Fin y) = NInf"
| "fl_add NInf PInf = NaN"
| "fl_add NInf NInf = NInf"
| "fl_add NInf NaN = NaN"
| "fl_add NaN b = NaN"

text \<open>The infinity of a given sign; a zero sign is the invalid operation \<open>0 * inf\<close>.\<close>

definition inf_of_sign :: "real \<Rightarrow> fl" where
  "inf_of_sign s = (if s = 0 then NaN else if 0 < s then PInf else NInf)"

fun fl_mul :: "fl \<Rightarrow> fl \<Rightarrow> fl" where
  "fl_mul (Fin x) (Fin y) = Fin (x * y)"
| "fl_mul (Fin x) PInf = inf_of_sign x"
| "fl_mul (Fin x) NInf = inf_of_sign (- x)"
| "fl_mul (Fin x) NaN = NaN"
| "fl_mul PInf (Fin y) = inf_of_sign y"
| "fl_mul PInf PInf = PInf"
| "fl_mul PInf NInf = NInf"
| "fl_mul PInf NaN = NaN"
| "fl_mul NInf (Fin y) = inf_of_sign (- y)"
| "fl_mul NInf PInf = NInf"
| "fl_mul NInf NInf = PInf"
| "fl_mul NInf NaN = NaN"
| "fl_mul NaN b = NaN"

text \<open>Division; a zero divisor is taken as \<open>+0\<close>.\<close>

fun fl_div :: "fl \<Rightarrow> fl \<Rightarrow> fl" where
  "fl_div (Fin x) (Fin y) = (if y = 0 then inf_of_sign x else Fin (x / y))"
| "fl_div (Fin x) PInf = Fin 0"
| "fl_div (Fin x) NInf = Fin 0"
| "fl_div (Fin x) NaN = NaN"
| "fl_div PInf (Fin y) = (if 0 \<le> y then PInf else NInf)"
| "fl_div PInf PInf = NaN"
| "fl_div PInf NInf = NaN"
| "fl_div PInf NaN = NaN"
| "fl_div NInf (Fin y) = (if 0 \<le> y then NInf else PInf)"
| "fl_div NInf PInf = NaN"
| "fl_div NInf NInf = NaN"
| "fl_div NInf NaN = NaN"
| "fl_div NaN b = NaN"

instantiation fl :: "{plus, minus, uminus, times, inverse, abs, ord}"
begin

definition plus_fl :: "fl \<Rightarrow> fl \<Rightarrow> fl" where
  "plus_fl a b = fl_add a b"

definition uminus_fl :: "fl \<Rightarrow> fl" where
  "uminus_fl a = fl_neg a"

definition minus_fl :: "fl \<Rightarrow> fl \<Rightarrow> fl" where
  "minus_fl a b = fl_add a (fl_neg b)"

definition times_fl :: "fl \<Rightarrow> fl \<Rightarrow> fl" where
  "times_fl a b = fl_mul a b"

definition divide_fl :: "fl \<Rightarrow> fl \<Rightarrow> fl" where
  "divide_fl a b = fl_div a b"

definition inverse_fl :: "fl \<Rightarrow> fl" where
  "inverse_fl a = fl_div (Fin 1) a"

definition abs_fl :: "fl \<Rightarrow> fl" where
  "abs_fl a = fl_abs a"

definition less_fl :: "fl \<Rightarrow> fl \<Rightarrow> bool" where
  "less_fl a b = fl_less a b"

definition less_eq_fl :: "fl \<Rightarrow> fl \<Rightarrow> bool" where
  "less_eq_fl a b = fl_le a b"

instance ..

end

text \<open>
  \<^verbatim>\<open>std::min(a, b)\<close> is \<^verbatim>\<open>(b < a) ? b : a\<close> and \<^verbatim>\<open>std::max(a, b)\<close> is
  \<^verbatim>\<open>(a < b) ? b : a\<close>; with a NaN operand both return their first argument.
\<close>

definition std_min :: "fl \<Rightarrow> fl \<Rightarrow> fl" where
  "std_min a b = (if b < a then b else a)"

definition std_max :: "fl \<Rightarrow> fl \<Rightarrow> fl" where
  "std_max a b = (if a < b then b else a)"

text \<open>\<^verbatim>\<open>clamp(value, min, max)\<close> of the engine, on floats and on ints.\<close>

definition clamp :: "fl \<Rightarrow> fl \<Rightarrow> fl \<Rightarrow> fl" where
  "clamp v lo hi = std_max lo (std_min v hi)"

definition clamp_int :: "int \<Rightarrow> int \<Rightarrow> int \<Rightarrow> int" where
  "clamp_int v lo hi = max lo (min v hi)"

text \<open>
  \<^verbatim>\<open>(int)x\<close> truncates toward zero; \<^verbatim>\<open>int\<close> has 32 bits. The conversion of a
  non-finite value, or of a value whose truncation is not an \<^verbatim>\<open>int\<close>, is undefined
  in C++; the model returns what x86 returns, the most negative int.
\<close>

fun fl_to_int :: "fl \<Rightarrow> int" where
  "fl_to_int (Fin x) =
     (if - 2147483649 < x \<and> x < 2147483648
      then (if 0 \<le> x then \<lfloor>x\<rfloor> else \<lceil>x\<rceil>)
      else - 2147483648)"
| "fl_to_int PInf = - 2147483648"
| "fl_to_int NInf = - 2147483648"
| "fl_to_int NaN = - 2147483648"

text \<open>\<^verbatim>\<open>std::round\<close>: to the nearest integer, halves away from zero.\<close>

fun fl_round :: "fl \<Rightarrow> fl" where
  "fl_round (Fin x) = Fin (if 0 \<le> x then of_int \<lfloor>x + 1 / 2\<rfloor> else of_int \<lceil>x - 1 / 2\<rceil>)"
| "fl_round PInf = PInf"
| "fl_round NInf = NInf"
| "fl_round NaN = NaN"

fun fl_sqrt :: "fl \<Rightarrow> fl" where
  "fl_sqrt (Fin x) = (if x < 0 then NaN else Fin (sqrt x))"
| "fl_sqrt PInf = PInf"
| "fl_sqrt NInf = NaN"
| "fl_sqrt NaN = NaN"

fun fl_sin :: "fl \<Rightarrow> fl" where
  "fl_sin (Fin x) = Fin (sin x)"
| "fl_sin PInf = NaN"
| "fl_sin NInf = NaN"
| "fl_sin NaN = NaN"

fun fl_cos :: "fl \<Rightarrow> fl" where
  "fl_cos (Fin x) = Fin (cos x)"
| "fl_cos PInf = NaN"
| "fl_cos NInf = NaN"
| "fl_cos NaN = NaN"

fun fl_tanh :: "fl \<Rightarrow> fl" where
  "fl_tanh (Fin x) = Fin (tanh x)"
| "fl_tanh PInf = Fin 1"
| "fl_tanh NInf = Fin (- 1)"
| "fl_tanh NaN = NaN"

text \<open>\<^verbatim>\<open>std::pow(b, e)\<close> for a constant base \<open>b > 1\<close> (the engine uses 10 and 1000).\<close>

fun fl_pow :: "real \<Rightarrow> fl \<Rightarrow> fl" where
  "fl_pow b (Fin e) = Fin (b powr e)"
| "fl_pow b PInf = PInf"
| "fl_pow b NInf = Fin 0"
| "fl_pow b NaN = NaN"

text \<open>Conversion of an int to float.\<close>

definition fl_of_int :: "int \<Rightarrow> fl" where
  "fl_of_int i = Fin (of_int i)"

section \<open>Three-band equaliser (three\_band\_eq.hpp)\<close>

record BiquadCoeffs =
  b0 :: fl
  b1 :: fl
  b2 :: fl
  a1 :: fl
  a2 :: fl

record BiquadState =
  x1 :: fl
  x2 :: fl
  y1 :: fl
  y2 :: fl
  x1r :: fl
  x2r :: fl
  y1r :: fl
  y2r :: fl

definition BiquadState_init :: BiquadState where
  "BiquadState_init =
     \<lparr>x1 = Fin 0, x2 = Fin 0, y1 = Fin 0, y2 = Fin 0,
      x1r = Fin 0, x2r = Fin 0, y1r = Fin 0, y2r = Fin 0\<rparr>"

record ThreeBandEQ =
  eq_sampleRate :: fl
  lowShelf :: BiquadCoeffs
  midPeak :: BiquadCoeffs
  highShelf :: BiquadCoeffs
  lowState :: BiquadState
  midState :: BiquadState
  highState :: BiquadState
  lowGain :: fl
  midGain :: fl
  highGain :: fl

definition calculateLowShelf :: "fl \<Rightarrow> fl \<Rightarrow> ThreeBandEQ \<Rightarrow> ThreeBandEQ" where
  "calculateLowShelf freq gain e =
     (let w0 = Fin 2 * Fin pi * freq / eq_sampleRate e;
          A = fl_pow 10 (gain / Fin 40);
          S = Fin 1;
          alpha = fl_sin w0 / Fin 2
                  * fl_sqrt ((A + Fin 1 / A) * (Fin 1 / S - Fin 1) + Fin 2);
          cos_w0 = fl_cos w0;
          nb0 = A * ((A + Fin 1) - (A - Fin 1) * cos_w0 + Fin 2 * fl_sqrt A * alpha);
          nb1 = Fin 2 * A * ((A - Fin 1) - (A + Fin 1) * cos_w0);
          nb2 = A * ((A + Fin 1) - (A - Fin 1) * cos_w0 - Fin 2 * fl_sqrt A * alpha);
          a0 = (A + Fin 1) + (A - Fin 1) * cos_w0 + Fin 2 * fl_sqrt A * alpha;
          na1 = Fin (- 2) * ((A - Fin 1) + (A + Fin 1) * cos_w0) / a0;
          na2 = ((A + Fin 1) + (A - Fin 1) * cos_w0 - Fin 2 * fl_sqrt A * alpha) / a0
      in e\<lparr>lowShelf := \<lparr>b0 = nb0 / a0, b1 = nb1 / a0, b2 = nb2 / a0, a1 = na1, a2 = na2\<rparr>\<rparr>)"

definition calculatePeaking :: "fl \<Rightarrow> fl \<Rightarrow> fl \<Rightarrow> ThreeBandEQ \<Rightarrow> ThreeBandEQ" where
  "calculatePeaking freq gain Q e =
     (let w0 = Fin 2 * Fin pi * freq / eq_sampleRate e;
          A = fl_pow 10 (gain / Fin 40);
          alpha = fl_sin w0 / (Fin 2 * Q);
          cos_w0 = fl_cos w0;
          nb0 = Fin 1 + alpha * A;
          nb1 = Fin (- 2) * cos_w0;
          nb2 = Fin 1 - alpha * A;
          a0 = Fin 1 + alpha / A;
          na1 = Fin (- 2) * cos_w0 / a0;
          na2 = (Fin 1 - alpha / A) / a0
      in e\<lparr>midPeak := \<lparr>b0 = nb0 / a0, b1 = nb1 / a0, b2 = nb2 / a0, a1 = na1, a2 = na2\<rparr>\<rparr>)"

definition calculateHighShelf :: "fl \<Rightarrow> fl \<Rightarrow> ThreeBandEQ \<Rightarrow> ThreeBandEQ" where
  "calculateHighShelf freq gain e =
     (let w0 = Fin 2 * Fin pi * freq / eq_sampleRate e;
          A = fl_pow 10 (gain / Fin 40);
          S = Fin 1;
          alpha = fl_sin w0 / Fin 2
                  * fl_sqrt ((A + Fin 1 / A) * (Fin 1 / S - Fin 1) + Fin 2);
          cos_w0 = fl_cos w0;
          nb0 = A * ((A + Fin 1) + (A - Fin 1) * cos_w0 + Fin 2 * fl_sqrt A * alpha);
          nb1 = Fin (- 2) * A * ((A - Fin 1) + (A + Fin 1) * cos_w0);
          nb2 = A * ((A + Fin 1) + (A - Fin 1) * cos_w0 - Fin 2 * fl_sqrt A * alpha);
          a0 = (A + Fin 1) - (A - Fin 1) * cos_w0 + Fin 2 * fl_sqrt A * alpha;
          na1 = Fin 2 * ((A - Fin 1) - (A + Fin 1) * cos_w0) / a0;
          na2 = ((A + Fin 1) - (A - Fin 1) * cos_w0 - Fin 2 * fl_sqrt A * alpha) / a0
      in e\<lparr>highShelf := \<lparr>b0 = nb0 / a0, b1 = nb1 / a0, b2 = nb2 / a0, a1 = na1, a2 = na2\<rparr>\<rparr>)"

text \<open>
  \<^verbatim>\<open>processBiquad\<close>: the direct-form-I difference equation on the left or the right
  half of the band's state; returns the output and the updated state.
\<close>

definition processBiquad :: "fl \<Rightarrow> BiquadCoeffs \<Rightarrow> BiquadState \<Rightarrow> bool \<Rightarrow> fl \<times> BiquadState" where
  "processBiquad input coeffs state rightChannel =
     (if rightChannel then
        (let output = b0 coeffs * input + b1 coeffs * x1r state + b2 coeffs * x2r state
                      - a1 coeffs * y1r state - a2 coeffs * y2r state
         in (output, state\<lparr>x2r := x1r state, x1r := input, y2r := y1r state, y1r := output\<rparr>))
      else
        (let output = b0 coeffs * input + b1 coeffs * x1 state + b2 coeffs * x2 state
                      - a1 coeffs * y1 state - a2 coeffs * y2 state
         in (output, state\<lparr>x2 := x1 state, x1 := input, y2 := y1 state, y1 := output\<rparr>)))"

text \<open>The constructor: gains 0 dB, bands at 250 Hz, 1 kHz (Q = 1) and 4 kHz.\<close>

definition ThreeBandEQ_init :: "fl \<Rightarrow> ThreeBandEQ" where
  "ThreeBandEQ_init sr =
     (let z = \<lparr>b0 = Fin 0, b1 = Fin 0, b2 = Fin 0, a1 = Fin 0, a2 = Fin 0\<rparr>;
          e = \<lparr>eq_sampleRate = sr, lowShelf = z, midPeak = z, highShelf = z,
               lowState = BiquadState_init, midState = BiquadState_init,
               highState = BiquadState_init,
               lowGain = Fin 0, midGain = Fin 0, highGain = Fin 0\<rparr>
      in calculateHighShelf (Fin 4000) (Fin 0)
           (calculatePeaking (Fin 1000) (Fin 0) (Fin 1)
              (calculateLowShelf (Fin 250) (Fin 0) e)))"

definition setLowGain :: "fl \<Rightarrow> ThreeBandEQ \<Rightarrow> ThreeBandEQ" where
  "setLowGain gain e =
     (let g = std_max (Fin (- 20)) (std_min (Fin 20) gain)
      in calculateLowShelf (Fin 250) g (e\<lparr>lowGain := g\<rparr>))"

definition setMidGain :: "fl \<Rightarrow> ThreeBandEQ \<Rightarrow> ThreeBandEQ" where
  "setMidGain gain e =
     (let g = std_max (Fin (- 20)) (std_min (Fin 20) gain)
      in calculatePeaking (Fin 1000) g (Fin 1) (e\<lparr>midGain := g\<rparr>))"

definition setHighGain :: "fl \<Rightarrow> ThreeBandEQ \<Rightarrow> ThreeBandEQ" where
  "setHighGain gain e =
     (let g = std_max (Fin (- 20)) (std_min (Fin 20) gain)
      in calculateHighShelf (Fin 4000) g (e\<lparr>highGain := g\<rparr>))"

text \<open>\<^verbatim>\<open>ThreeBandEQ::process\<close>: low shelf, mid peak, high shelf in series, per channel.\<close>

definition eq_process :: "ThreeBandEQ \<Rightarrow> fl \<Rightarrow> fl \<Rightarrow> ThreeBandEQ \<times> fl \<times> fl" where
  "eq_process e inL inR =
     (let (tL1, ls1) = processBiquad inL (lowShelf e) (lowState e) False;
          (tL2, ms1) = processBiquad tL1 (midPeak e) (midState e) False;
          (tL3, hs1) = processBiquad tL2 (highShelf e) (highState e) False;
          (tR1, ls2) = processBiquad inR (lowShelf e) ls1 True;
          (tR2, ms2) = processBiquad tR1 (midPeak e) ms1 True;
          (tR3, hs2) = processBiquad tR2 (highShelf e) hs1 True
      in (e\<lparr>lowState := ls2, midState := ms2, highState := hs2\<rparr>, tL3, tR3))"

definition eq_clear :: "ThreeBandEQ \<Rightarrow> ThreeBandEQ" where
  "eq_clear e = e\<lparr>lowState := BiquadState_init, midState := BiquadState_init,
                  highState := BiquadState_init\<rparr>"

text \<open>
  The C++ remainder \<^verbatim>\<open>a % b\<close> truncates toward zero; it agrees with \<open>mod\<close> when
  both operands are non-negative.
\<close>

definition c_rem :: "int \<Rightarrow> int \<Rightarrow> int" where
  "c_rem a b = sgn a * (\<bar>a\<bar> mod \<bar>b\<bar>)"

section \<open>Stereo delay (ripley/stereo\_delay.hpp)\<close>

record StereoDelay =
  dl_sampleRate :: fl
  maxDelay :: fl
  bufferSize :: int
  leftBuffer :: "fl list"
  rightBuffer :: "fl list"
  writeIndex :: int
  delayTimeL :: fl
  delayTimeR :: fl
  dl_feedback :: fl

definition StereoDelay_init :: "fl \<Rightarrow> StereoDelay" where
  "StereoDelay_init sr =
     (let maxDel = Fin 2; n = fl_to_int (maxDel * sr)
      in \<lparr>dl_sampleRate = sr, maxDelay = maxDel, bufferSize = n,
          leftBuffer = replicate (nat n) (Fin 0), rightBuffer = replicate (nat n) (Fin 0),
          writeIndex = 0, delayTimeL = Fin 0.25, delayTimeR = Fin 0.25,
          dl_feedback = Fin 0.3\<rparr>)"

definition delay_setDelayTime :: "fl \<Rightarrow> fl \<Rightarrow> StereoDelay \<Rightarrow> StereoDelay" where
  "delay_setDelayTime left right d =
     d\<lparr>delayTimeL := std_max (Fin 0.001) (std_min (maxDelay d) left),
       delayTimeR := std_max (Fin 0.001) (std_min (maxDelay d) right)\<rparr>"

definition delay_setFeedback :: "fl \<Rightarrow> StereoDelay \<Rightarrow> StereoDelay" where
  "delay_setFeedback fb d = d\<lparr>dl_feedback := std_max (Fin 0) (std_min (Fin 0.95) fb)\<rparr>"

text \<open>One iteration of the loop of \<^verbatim>\<open>StereoDelay::process\<close>.\<close>

definition delay_sample :: "int \<Rightarrow> int \<Rightarrow> StereoDelay \<Rightarrow> fl \<Rightarrow> fl \<Rightarrow> StereoDelay \<times> fl \<times> fl" where
  "delay_sample delaySamplesL delaySamplesR d inL inR =
     (let readIndexL = c_rem (writeIndex d - delaySamplesL + bufferSize d) (bufferSize d);
          readIndexR = c_rem (writeIndex d - delaySamplesR + bufferSize d) (bufferSize d);
          leftDelayed = leftBuffer d ! nat readIndexL;
          rightDelayed = rightBuffer d ! nat readIndexR
      in (d\<lparr>leftBuffer := (leftBuffer d)[nat (writeIndex d) := inL + leftDelayed * dl_feedback d],
            rightBuffer := (rightBuffer d)[nat (writeIndex d) := inR + rightDelayed * dl_feedback d],
            writeIndex := c_rem (writeIndex d + 1) (bufferSize d)\<rparr>,
          leftDelayed, rightDelayed))"

fun delay_loop :: "int \<Rightarrow> int \<Rightarrow> StereoDelay \<Rightarrow> (fl \<times> fl) list \<Rightarrow> StereoDelay \<times> (fl \<times> fl) list" where
  "delay_loop dsL dsR d [] = (d, [])"
| "delay_loop dsL dsR d ((inL, inR) # ins) =
     (let (d1, oL, oR) = delay_sample dsL dsR d inL inR;
          (d2, outs) = delay_loop dsL dsR d1 ins
      in (d2, (oL, oR) # outs))"

definition delay_process :: "StereoDelay \<Rightarrow> (fl \<times> fl) list \<Rightarrow> StereoDelay \<times> (fl \<times> fl) list" where
  "delay_process d ins =
     (let delaySamplesL = max 1 (min (bufferSize d - 1) (fl_to_int (delayTimeL d * dl_sampleRate d)));
          delaySamplesR = max 1 (min (bufferSize d - 1) (fl_to_int (delayTimeR d * dl_sampleRate d)))
      in delay_loop delaySamplesL delaySamplesR d ins)"

definition delay_clear :: "StereoDelay \<Rightarrow> StereoDelay" where
  "delay_clear d =
     d\<lparr>leftBuffer := replicate (length (leftBuffer d)) (Fin 0),
       rightBuffer := replicate (length (rightBuffer d)) (Fin 0),
       writeIndex := 0\<rparr>"

section \<open>Reverb (ripley/reverb\_processor.hpp)\<close>

definition COMB_SIZES :: "nat list" where
  "COMB_SIZES = [1557, 1617, 1491, 1422, 1277, 1356, 1188, 1116]"

definition ALLPASS_SIZES :: "nat list" where
  "ALLPASS_SIZES = [556, 441, 341, 225]"

record ReverbProcessor =
  rv_sampleRate :: fl
  combBuffersL :: "fl list list"
  combBuffersR :: "fl list list"
  combIndicesL :: "int list"
  combIndicesR :: "int list"
  combLpL :: "fl list"
  combLpR :: "fl list"
  allpassBuffers :: "fl list list"
  allpassIndices :: "int list"
  hpStateL :: fl
  hpStateR :: fl
  roomSize :: fl
  damping :: fl
  decay :: fl

definition ReverbProcessor_init :: "fl \<Rightarrow> ReverbProcessor" where
  "ReverbProcessor_init sr =
     \<lparr>rv_sampleRate = sr,
      combBuffersL = map (\<lambda>i. replicate (COMB_SIZES ! i) (Fin 0)) [0, 1, 2, 3],
      combBuffersR = map (\<lambda>i. replicate (COMB_SIZES ! (i + 4)) (Fin 0)) [0, 1, 2, 3],
      combIndicesL = [0, 0, 0, 0],
      combIndicesR = [0, 0, 0, 0],
      combLpL = [Fin 0, Fin 0, Fin 0, Fin 0],
      combLpR = [Fin 0, Fin 0, Fin 0, Fin 0],
      allpassBuffers = map (\<lambda>i. replicate (ALLPASS_SIZES ! i) (Fin 0)) [0, 1, 2, 3],
      allpassIndices = [0, 0, 0, 0],
      hpStateL = Fin 0, hpStateR = Fin 0,
      roomSize = Fin 0.5, damping = Fin 0.4, decay = Fin 0.6\<rparr>"

definition reverb_setParameters :: "fl \<Rightarrow> fl \<Rightarrow> fl \<Rightarrow> ReverbProcessor \<Rightarrow> ReverbProcessor" where
  "reverb_setParameters room damp dec r =
     r\<lparr>roomSize := std_max (Fin 0) (std_min (Fin 1) room),
       damping := std_max (Fin 0) (std_min (Fin 1) damp),
       decay := std_max (Fin 0) (std_min (Fin 1) dec)\<rparr>"

text \<open>
  \<^verbatim>\<open>processCombFilter\<close>: returns the output and the updated buffer, index and lowpass
  state (the three reference parameters).
\<close>

definition processCombFilter ::
    "fl \<Rightarrow> fl list \<Rightarrow> int \<Rightarrow> fl \<Rightarrow> fl \<Rightarrow> fl \<Rightarrow> fl \<times> fl list \<times> int \<times> fl" where
  "processCombFilter input buffer index lpState feedback dampingCoeff =
     (let size = int (length buffer);
          output = buffer ! nat index;
          lp = lpState + (output - lpState) * dampingCoeff
      in (output, buffer[nat index := input + lp * feedback], c_rem (index + 1) size, lp))"

definition processAllpassFilter :: "fl \<Rightarrow> fl list \<Rightarrow> int \<Rightarrow> fl \<times> fl list \<times> int" where
  "processAllpassFilter input buffer index =
     (let gain = Fin 0.5;
          size = int (length buffer);
          delayed = buffer ! nat index;
          output = - input * gain + delayed
      in (output, buffer[nat index := input + delayed * gain], c_rem (index + 1) size))"

text \<open>Body of the comb loops: filter \<open>j\<close> of one channel adds its output to the sum.\<close>

definition comb_step ::
    "fl \<Rightarrow> fl \<Rightarrow> fl \<Rightarrow> nat \<Rightarrow> fl \<times> fl list list \<times> int list \<times> fl list
       \<Rightarrow> fl \<times> fl list list \<times> int list \<times> fl list" where
  "comb_step input feedback dampingCoeff j = (\<lambda>(combOut, bufs, idxs, lps).
     (let (out, b, i, lp) =
            processCombFilter input (bufs ! j) (idxs ! j) (lps ! j) feedback dampingCoeff
      in (combOut + out, bufs[j := b], idxs[j := i], lps[j := lp])))"

text \<open>
  Body of the diffusion loop: allpass \<open>j\<close> filters the left sample and then, on the
  same buffer and index, the right sample.
\<close>

definition allpass_step ::
    "nat \<Rightarrow> fl \<times> fl \<times> fl list list \<times> int list \<Rightarrow> fl \<times> fl \<times> fl list list \<times> int list" where
  "allpass_step j = (\<lambda>(diffusedL, diffusedR, bufs, idxs).
     (let (oL, bL, iL) = processAllpassFilter diffusedL (bufs ! j) (idxs ! j);
          (oR, bR, iR) = processAllpassFilter diffusedR bL iL
      in (oL, oR, bufs[j := bR], idxs[j := iR])))"

text \<open>One iteration of the sample loop of \<^verbatim>\<open>ReverbProcessor::process\<close>.\<close>

definition reverb_sample ::
    "fl \<Rightarrow> fl \<Rightarrow> fl \<Rightarrow> ReverbProcessor \<Rightarrow> fl \<Rightarrow> fl \<Rightarrow> ReverbProcessor \<times> fl \<times> fl" where
  "reverb_sample feedback dampingCoeff roomScale r leftIn rightIn =
     (let inputL = leftIn * roomScale;
          inputR = rightIn * roomScale;
          (combOutL, cbL, ciL, clL) =
             fold (comb_step inputL feedback dampingCoeff) [0, 1, 2, 3]
               (Fin 0, combBuffersL r, combIndicesL r, combLpL r);
          (combOutR, cbR, ciR, clR) =
             fold (comb_step inputR feedback dampingCoeff) [0, 1, 2, 3]
               (Fin 0, combBuffersR r, combIndicesR r, combLpR r);
          combOutL = combOutL * Fin 0.25;
          combOutR = combOutR * Fin 0.25;
          (diffusedL, diffusedR, ab, ai) =
             fold allpass_step [0, 1, 2, 3]
               (combOutL, combOutR, allpassBuffers r, allpassIndices r);
          hpCutoff = Fin 100 / (rv_sampleRate r * Fin 0.5);
          hpCutoff = std_max (Fin 0.001) (std_min (Fin 0.1) hpCutoff);
          hpL = hpStateL r + (diffusedL - hpStateL r) * hpCutoff;
          hpR = hpStateR r + (diffusedR - hpStateR r) * hpCutoff
      in (r\<lparr>combBuffersL := cbL, combIndicesL := ciL, combLpL := clL,
            combBuffersR := cbR, combIndicesR := ciR, combLpR := clR,
            allpassBuffers := ab, allpassIndices := ai,
            hpStateL := hpL, hpStateR := hpR\<rparr>,
          diffusedL - hpL, diffusedR - hpR))"

fun reverb_loop ::
    "fl \<Rightarrow> fl \<Rightarrow> fl \<Rightarrow> ReverbProcessor \<Rightarrow> (fl \<times> fl) list \<Rightarrow> ReverbProcessor \<times> (fl \<times> fl) list" where
  "reverb_loop fb dc rs r [] = (r, [])"
| "reverb_loop fb dc rs r ((inL, inR) # ins) =
     (let (r1, oL, oR) = reverb_sample fb dc rs r inL inR;
          (r2, outs) = reverb_loop fb dc rs r1 ins
      in (r2, (oL, oR) # outs))"

definition reverb_process ::
    "ReverbProcessor \<Rightarrow> (fl \<times> fl) list \<Rightarrow> ReverbProcessor \<times> (fl \<times> fl) list" where
  "reverb_process r ins =
     (let feedback = Fin 0.5 + decay r * Fin 0.485;
          feedback = std_max (Fin 0) (std_min (Fin 0.995) feedback);
          dampingCoeff = Fin 0.05 + damping r * Fin 0.9;
          roomScale = Fin 0.3 + roomSize r * Fin 1.4
      in reverb_loop feedback dampingCoeff roomScale r ins)"

definition reverb_clear :: "ReverbProcessor \<Rightarrow> ReverbProcessor" where
  "reverb_clear r =
     r\<lparr>combBuffersL := map (\<lambda>b. replicate (length b) (Fin 0)) (combBuffersL r),
       combBuffersR := map (\<lambda>b. replicate (length b) (Fin 0)) (combBuffersR r),
       allpassBuffers := map (\<lambda>b. replicate (length b) (Fin 0)) (allpassBuffers r),
       combIndicesL := [0, 0, 0, 0], combIndicesR := [0, 0, 0, 0],
       allpassIndices := [0, 0, 0, 0],
       combLpL := [Fin 0, Fin 0, Fin 0, Fin 0], combLpR := [Fin 0, Fin 0, Fin 0, Fin 0],
       hpStateL := Fin 0, hpStateR := Fin 0\<rparr>"

section \<open>The engine (alien4\_engine.hpp)\<close>

record Slice =
  startSample :: int
  endSample :: int
  peakAmplitude :: fl
  active :: bool

record Voice =
  sliceIndex :: int
  voicePlaybackPosition :: int
  voicePlaybackPhase :: fl
  speedMultiplier :: fl

text \<open>A default-constructed \<^verbatim>\<open>Voice\<close>, as \<^verbatim>\<open>voices.resize\<close> appends it.\<close>

definition Voice_default :: Voice where
  "Voice_default =
     \<lparr>sliceIndex = 0, voicePlaybackPosition = 0, voicePlaybackPhase = Fin 0,
      speedMultiplier = Fin 1\<rparr>"

text \<open>
  The random engine is library code. It is modelled as an arbitrary stream of naturals
  and a read position; \<^verbatim>\<open>uniform_int_distribution(0, n - 1)\<close> reduces the next
  natural modulo \<open>n\<close>, and \<^verbatim>\<open>uniform_real_distribution(-2, 2)\<close> maps it into
  \<open>[-2, 2)\<close>. Every value a distribution can return is the image of some stream.
\<close>

record rng =
  rng_raw :: "nat \<Rightarrow> nat"
  rng_pos :: nat

definition sliceDist :: "nat \<Rightarrow> rng \<Rightarrow> int \<times> rng" where
  "sliceDist n r = (int (rng_raw r (rng_pos r) mod n), r\<lparr>rng_pos := Suc (rng_pos r)\<rparr>)"

definition speedDist :: "rng \<Rightarrow> fl \<times> rng" where
  "speedDist r =
     (Fin (- 2 + 4 * real (rng_raw r (rng_pos r) mod 16777216) / 16777216),
      r\<lparr>rng_pos := Suc (rng_pos r)\<rparr>)"

definition LOOP_BUFFER_SIZE :: int where
  "LOOP_BUFFER_SIZE = 2880000"

text \<open>
  The two sample buffers have \<open>LOOP_BUFFER_SIZE\<close> elements; they are modelled as
  functions from the index, read and written below that size only.
\<close>

record engine =
  sampleRate :: fl
  loopBuffer :: "nat \<Rightarrow> fl"
  playbackPosition :: int
  playbackPhase :: fl
  recordedLength :: int
  lastScanTargetIndex :: int
  tempBuffer :: "nat \<Rightarrow> fl"
  tempSlices :: "Slice list"
  tempRecordPosition :: int
  tempRecordedLength :: int
  tempLastAmplitude :: fl
  slices :: "Slice list"
  currentSliceIndex :: int
  lastAmplitude :: fl
  lastMinSliceTime :: fl
  voices :: "Voice list"
  numVoices :: int
  randomEngine :: rng
  lastScanValue :: fl
  isRecording :: bool
  looping :: bool
  minSliceTime :: fl
  scanValue :: fl
  feedbackAmount :: fl
  mixAmount :: fl
  speed :: fl
  lastOutputL :: fl
  lastOutputR :: fl
  eq :: ThreeBandEQ
  delay :: StereoDelay
  reverb :: ReverbProcessor
  delayWet :: fl
  reverbWet :: fl

definition getMinSliceTime :: "fl \<Rightarrow> fl" where
  "getMinSliceTime knobValue =
     (if knobValue \<le> Fin 0.5 then
        (let t = knobValue * Fin 2 in Fin 0.001 * fl_pow 1000 t)
      else
        (let t = (knobValue - Fin 0.5) * Fin 2 in Fin 1 + t * Fin 4))"

text \<open>The constructor; \<open>seed\<close> is the stream the random engine was seeded to.\<close>

definition Alien4AudioEngine :: "fl \<Rightarrow> (nat \<Rightarrow> nat) \<Rightarrow> engine" where
  "Alien4AudioEngine sr seed =
     \<lparr>sampleRate = sr, loopBuffer = (\<lambda>i. Fin 0), playbackPosition = 0,
      playbackPhase = Fin 0, recordedLength = 0, lastScanTargetIndex = - 1,
      tempBuffer = (\<lambda>i. Fin 0), tempSlices = [], tempRecordPosition = 0,
      tempRecordedLength = 0, tempLastAmplitude = Fin 0, slices = [],
      currentSliceIndex = 0, lastAmplitude = Fin 0, lastMinSliceTime = Fin 0.05,
      voices = [], numVoices = 1, randomEngine = \<lparr>rng_raw = seed, rng_pos = 0\<rparr>,
      lastScanValue = Fin (- 1), isRecording = False, looping = True,
      minSliceTime = Fin 0.05, scanValue = Fin 0, feedbackAmount = Fin 0,
      mixAmount = Fin 0.5, speed = Fin 1, lastOutputL = Fin 0, lastOutputR = Fin 0,
      eq = ThreeBandEQ_init sr, delay = StereoDelay_init sr,
      reverb = ReverbProcessor_init sr, delayWet = Fin 0, reverbWet = Fin 0\<rparr>"

subsection \<open>Slice detection\<close>

text \<open>\<^verbatim>\<open>slices.back()\<close> modified in place.\<close>

definition upd_back :: "(Slice \<Rightarrow> Slice) \<Rightarrow> Slice list \<Rightarrow> Slice list" where
  "upd_back f sl = butlast sl @ [f (last sl)]"

definition newSlice :: "int \<Rightarrow> Slice" where
  "newSlice pos = \<lparr>startSample = pos, endSample = 0, peakAmplitude = Fin 0, active = True\<rparr>"

text \<open>
  The onset detector's body for one sample at position \<open>pos\<close> with amplitude
  \<open>currentAmp\<close>. The source has it twice: in \<^verbatim>\<open>rescanSlices\<close>, where the slice at
  the back is closed when it is active (\<open>needOpen = False\<close>), and in the recording
  branch of \<^verbatim>\<open>process\<close>, where it must also have \<open>endSample == 0\<close>
  (\<open>needOpen = True\<close>).
\<close>

definition detect_step :: "bool \<Rightarrow> fl \<Rightarrow> int \<Rightarrow> int \<Rightarrow> fl \<Rightarrow> fl \<Rightarrow> Slice list \<Rightarrow> Slice list" where
  "detect_step needOpen threshold minSliceSamples pos currentAmp lastAmp sl =
     (let sl1 =
        (if lastAmp < threshold \<and> currentAmp \<ge> threshold then
           (let sl2 =
              (if sl \<noteq> [] \<and> active (last sl)
                  \<and> (if needOpen then endSample (last sl) = 0 else True) then
                 (let sliceLength = pos - startSample (last sl)
                  in if sliceLength \<ge> minSliceSamples
                     then upd_back (\<lambda>s. s\<lparr>endSample := pos - 1\<rparr>) sl
                     else butlast sl)
               else sl)
            in if sl2 = [] \<or> endSample (last sl2) > 0 then sl2 @ [newSlice pos] else sl2)
         else sl)
      in if sl1 \<noteq> [] \<and> active (last sl1) \<and> endSample (last sl1) = 0
         then upd_back (\<lambda>s. s\<lparr>peakAmplitude := std_max (peakAmplitude s) currentAmp\<rparr>) sl1
         else sl1)"

text \<open>Closing the slice still open at the end of the buffer (rescan and stop alike).\<close>

definition close_last :: "int \<Rightarrow> int \<Rightarrow> Slice list \<Rightarrow> Slice list" where
  "close_last len minSliceSamples sl =
     (if sl \<noteq> [] \<and> active (last sl) \<and> endSample (last sl) = 0 then
        (let sliceLength = len - startSample (last sl)
         in if sliceLength \<ge> minSliceSamples
            then upd_back (\<lambda>s. s\<lparr>endSample := len - 1\<rparr>) sl
            else butlast sl)
      else sl)"

text \<open>The \<^verbatim>\<open>for\<close> loop of \<^verbatim>\<open>rescanSlices\<close>, carrying the list and \<open>lastAmp\<close>.\<close>

definition rescan_step :: "(nat \<Rightarrow> fl) \<Rightarrow> fl \<Rightarrow> int \<Rightarrow> nat \<Rightarrow> Slice list \<times> fl \<Rightarrow> Slice list \<times> fl" where
  "rescan_step buf threshold minSliceSamples pos = (\<lambda>(sl, lastAmp).
     (let currentAmp = \<bar>buf pos\<bar>
      in (detect_step False threshold minSliceSamples (int pos) currentAmp lastAmp sl,
          currentAmp)))"

definition rescan_loop :: "(nat \<Rightarrow> fl) \<Rightarrow> int \<Rightarrow> fl \<Rightarrow> int \<Rightarrow> Slice list \<times> fl" where
  "rescan_loop buf len threshold minSliceSamples =
     fold (rescan_step buf threshold minSliceSamples) [0..<nat len] ([], Fin 0)"

definition rescanSlices :: "fl \<Rightarrow> fl \<Rightarrow> engine \<Rightarrow> engine" where
  "rescanSlices threshold minSliceTimeSec st =
     (if recordedLength st \<le> 0 then st
      else
        (let minSliceSamples = fl_to_int (minSliceTimeSec * sampleRate st);
             sl = close_last (recordedLength st) minSliceSamples
                    (fst (rescan_loop (loopBuffer st) (recordedLength st) threshold minSliceSamples))
         in st\<lparr>slices := sl,
               currentSliceIndex :=
                 (if currentSliceIndex st \<ge> int (length sl)
                  then (if sl = [] then 0 else int (length sl) - 1)
                  else currentSliceIndex st)\<rparr>))"

subsection \<open>Voice distribution\<close>

definition slice_invalid :: "Slice list \<Rightarrow> int \<Rightarrow> int \<Rightarrow> bool" where
  "slice_invalid sl recLen t =
     (\<not> active (sl ! nat t) \<or> startSample (sl ! nat t) \<ge> recLen)"

text \<open>
  The retry loop \<^verbatim>\<open>while (attempts < 20 && invalid) { draw; attempts++; }\<close>; the
  first argument counts the attempts that remain.
\<close>

fun retry_loop :: "nat \<Rightarrow> (int \<Rightarrow> bool) \<Rightarrow> nat \<Rightarrow> int \<Rightarrow> rng \<Rightarrow> int \<times> rng" where
  "retry_loop 0 invalid n target r = (target, r)"
| "retry_loop (Suc k) invalid n target r =
     (if invalid target
      then (let (t, r1) = sliceDist n r in retry_loop k invalid n t r1)
      else (target, r))"

definition redistribute_voice :: "Slice list \<Rightarrow> int \<Rightarrow> nat \<Rightarrow> Voice list \<times> rng \<Rightarrow> Voice list \<times> rng" where
  "redistribute_voice sl recLen i = (\<lambda>(vs, r).
     (let (t0, r1) = sliceDist (length sl) r;
          (targetSliceIndex, r2) = retry_loop 20 (slice_invalid sl recLen) (length sl) t0 r1
      in if slice_invalid sl recLen targetSliceIndex then (vs, r2)
         else
           (let (sp, r3) = speedDist r2
            in (vs[i := (vs ! i)\<lparr>sliceIndex := targetSliceIndex,
                                 voicePlaybackPosition := startSample (sl ! nat targetSliceIndex),
                                 voicePlaybackPhase := Fin 0,
                                 speedMultiplier := sp\<rparr>], r3))))"

definition redistributeVoices :: "engine \<Rightarrow> engine" where
  "redistributeVoices st =
     (if slices st = [] \<or> numVoices st \<le> 1 \<or> voices st = [] then st
      else
        (let (vs, r) = fold (redistribute_voice (slices st) (recordedLength st))
                         [1..<nat (numVoices st)] (voices st, randomEngine st)
         in st\<lparr>voices := vs, randomEngine := r\<rparr>))"

subsection \<open>Parameter setters\<close>

definition reset_voice :: "Voice \<Rightarrow> Voice" where
  "reset_voice v = v\<lparr>sliceIndex := 0, voicePlaybackPosition := 0,
                     voicePlaybackPhase := Fin 0, speedMultiplier := Fin 1\<rparr>"

definition setRecording :: "bool \<Rightarrow> engine \<Rightarrow> engine" where
  "setRecording rec st =
     (if rec \<and> \<not> isRecording st then
        st\<lparr>tempBuffer := (\<lambda>i. Fin 0), tempSlices := [], tempRecordPosition := 0,
           tempRecordedLength := 0, tempLastAmplitude := Fin 0, isRecording := True\<rparr>
      else if \<not> rec \<and> isRecording st then
        (let minSliceTimeSec = getMinSliceTime (minSliceTime st);
             minSliceSamples = fl_to_int (minSliceTimeSec * sampleRate st);
             ts = close_last (tempRecordedLength st) minSliceSamples (tempSlices st);
             st1 = st\<lparr>tempSlices := ts, loopBuffer := tempBuffer st, slices := ts,
                      recordedLength := tempRecordedLength st, playbackPosition := 0,
                      playbackPhase := Fin 0, currentSliceIndex := 0,
                      lastAmplitude := Fin 0, voices := map reset_voice (voices st)\<rparr>;
             st2 = (if numVoices st1 > 1 then redistributeVoices st1 else st1)
         in st2\<lparr>isRecording := False\<rparr>)
      else st)"

definition setLooping :: "bool \<Rightarrow> engine \<Rightarrow> engine" where
  "setLooping loop st = st\<lparr>looping := loop\<rparr>"

definition setMinSliceTime :: "fl \<Rightarrow> engine \<Rightarrow> engine" where
  "setMinSliceTime time st =
     (let st1 = st\<lparr>minSliceTime := clamp time (Fin 0) (Fin 1)\<rparr>;
          actualTime = getMinSliceTime (minSliceTime st1)
      in if \<not> isRecording st1 \<and> recordedLength st1 > 0
            \<and> \<bar>actualTime - lastMinSliceTime st1\<bar> > Fin 0.001
         then (redistributeVoices (rescanSlices (Fin 0.5) actualTime st1))
                \<lparr>lastMinSliceTime := actualTime\<rparr>
         else st1)"

definition setScan :: "fl \<Rightarrow> engine \<Rightarrow> engine" where
  "setScan scan st =
     (let st1 = st\<lparr>scanValue := clamp scan (Fin 0) (Fin 1)\<rparr>
      in if \<bar>scanValue st1 - lastScanValue st1\<bar> > Fin 0.001
         then (redistributeVoices st1)\<lparr>lastScanValue := scanValue st1\<rparr>
         else st1)"

definition setFeedback :: "fl \<Rightarrow> engine \<Rightarrow> engine" where
  "setFeedback amount st = st\<lparr>feedbackAmount := clamp amount (Fin 0) (Fin 0.95)\<rparr>"

definition setMix :: "fl \<Rightarrow> engine \<Rightarrow> engine" where
  "setMix mix st = st\<lparr>mixAmount := clamp mix (Fin 0) (Fin 1)\<rparr>"

definition setSpeed :: "fl \<Rightarrow> engine \<Rightarrow> engine" where
  "setSpeed spd st = st\<lparr>speed := clamp spd (Fin (- 8)) (Fin 8)\<rparr>"

text \<open>\<^verbatim>\<open>voices.resize(n)\<close>: truncate, or append default voices.\<close>

definition resize_voices :: "nat \<Rightarrow> Voice list \<Rightarrow> Voice list" where
  "resize_voices n vs = take n vs @ replicate (n - length vs) Voice_default"

text \<open>
  The validity test of \<^verbatim>\<open>setPolyVoices\<close>, which also tests the index against the size.
\<close>

definition poly_invalid :: "Slice list \<Rightarrow> int \<Rightarrow> int \<Rightarrow> bool" where
  "poly_invalid sl recLen t =
     (t \<ge> int (length sl) \<or> \<not> active (sl ! nat t) \<or> startSample (sl ! nat t) \<ge> recLen)"

definition poly_voice :: "engine \<Rightarrow> nat \<Rightarrow> Voice list \<times> rng \<Rightarrow> Voice list \<times> rng" where
  "poly_voice st i = (\<lambda>(vs, r).
     (if i = 0 then
        (vs[i := (vs ! i)\<lparr>sliceIndex := currentSliceIndex st,
                          voicePlaybackPosition := playbackPosition st,
                          voicePlaybackPhase := playbackPhase st,
                          speedMultiplier := Fin 1\<rparr>], r)
      else
        (let sl = slices st;
             (t0, r1) = sliceDist (length sl) r;
             (t1, r2) = retry_loop 20 (poly_invalid sl (recordedLength st)) (length sl) t0 r1;
             targetSliceIndex =
               (if poly_invalid sl (recordedLength st) t1 then currentSliceIndex st else t1);
             (sp, r3) = speedDist r2
         in (vs[i := (vs ! i)\<lparr>sliceIndex := targetSliceIndex,
                              voicePlaybackPosition := startSample (sl ! nat targetSliceIndex),
                              voicePlaybackPhase := Fin 0,
                              speedMultiplier := sp\<rparr>], r3))))"

definition inherit_voice :: "engine \<Rightarrow> Voice \<Rightarrow> Voice" where
  "inherit_voice st v = v\<lparr>sliceIndex := currentSliceIndex st,
                          voicePlaybackPosition := playbackPosition st,
                          voicePlaybackPhase := playbackPhase st,
                          speedMultiplier := Fin 1\<rparr>"

definition setPolyVoices :: "int \<Rightarrow> engine \<Rightarrow> engine" where
  "setPolyVoices voices_count st =
     (let newNumVoices = clamp_int voices_count 1 8
      in if newNumVoices \<noteq> numVoices st then
           (let st1 = st\<lparr>numVoices := newNumVoices,
                         voices := resize_voices (nat newNumVoices) (voices st)\<rparr>
            in if slices st1 \<noteq> [] \<and> numVoices st1 > 1 then
                 (let (vs, r) = fold (poly_voice st1) [0..<nat (numVoices st1)]
                                  (voices st1, randomEngine st1)
                  in st1\<lparr>voices := vs, randomEngine := r\<rparr>)
               else st1\<lparr>voices := map (inherit_voice st1) (voices st1)\<rparr>)
         else st)"

definition setEQLow :: "fl \<Rightarrow> engine \<Rightarrow> engine" where
  "setEQLow gain st = st\<lparr>eq := setLowGain gain (eq st)\<rparr>"

definition setEQMid :: "fl \<Rightarrow> engine \<Rightarrow> engine" where
  "setEQMid gain st = st\<lparr>eq := setMidGain gain (eq st)\<rparr>"

definition setEQHigh :: "fl \<Rightarrow> engine \<Rightarrow> engine" where
  "setEQHigh gain st = st\<lparr>eq := setHighGain gain (eq st)\<rparr>"

definition setDelayTime :: "fl \<Rightarrow> fl \<Rightarrow> engine \<Rightarrow> engine" where
  "setDelayTime timeL timeR st = st\<lparr>delay := delay_setDelayTime timeL timeR (delay st)\<rparr>"

definition setDelayFeedback :: "fl \<Rightarrow> engine \<Rightarrow> engine" where
  "setDelayFeedback fb st = st\<lparr>delay := delay_setFeedback fb (delay st)\<rparr>"

definition setDelayWet :: "fl \<Rightarrow> engine \<Rightarrow> engine" where
  "setDelayWet wet st = st\<lparr>delayWet := clamp wet (Fin 0) (Fin 1)\<rparr>"

definition setReverbRoom :: "fl \<Rightarrow> engine \<Rightarrow> engine" where
  "setReverbRoom room st =
     st\<lparr>reverb := reverb_setParameters room (Fin (- 1)) (Fin (- 1)) (reverb st)\<rparr>"

definition setReverbDamping :: "fl \<Rightarrow> engine \<Rightarrow> engine" where
  "setReverbDamping damp st =
     st\<lparr>reverb := reverb_setParameters (Fin (- 1)) damp (Fin (- 1)) (reverb st)\<rparr>"

definition setReverbDecay :: "fl \<Rightarrow> engine \<Rightarrow> engine" where
  "setReverbDecay dec st =
     st\<lparr>reverb := reverb_setParameters (Fin (- 1)) (Fin (- 1)) dec (reverb st)\<rparr>"

definition setReverbWet :: "fl \<Rightarrow> engine \<Rightarrow> engine" where
  "setReverbWet wet st = st\<lparr>reverbWet := clamp wet (Fin 0) (Fin 1)\<rparr>"

definition getNumSlices :: "engine \<Rightarrow> int" where
  "getNumSlices st = int (length (slices st))"

definition getCurrentSlice :: "engine \<Rightarrow> int" where
  "getCurrentSlice st = currentSliceIndex st"

definition getNumVoices :: "engine \<Rightarrow> int" where
  "getNumVoices st = numVoices st"

definition getIsRecording :: "engine \<Rightarrow> bool" where
  "getIsRecording st = isRecording st"

definition clear :: "engine \<Rightarrow> engine" where
  "clear st =
     st\<lparr>loopBuffer := (\<lambda>i. Fin 0), playbackPosition := 0, playbackPhase := Fin 0,
        recordedLength := 0, isRecording := False, lastOutputL := Fin 0,
        lastOutputR := Fin 0, slices := [], currentSliceIndex := 0,
        lastAmplitude := Fin 0, lastScanTargetIndex := - 1, voices := [],
        numVoices := 1, eq := eq_clear (eq st), delay := delay_clear (delay st),
        reverb := reverb_clear (reverb st)\<rparr>"

subsection \<open>The render call\<close>

text \<open>The recording branch of the sample loop.\<close>

definition record_input :: "fl \<Rightarrow> engine \<Rightarrow> engine" where
  "record_input input st =
     (if isRecording st \<and> tempRecordPosition st < LOOP_BUFFER_SIZE then
        (let currentAmp = \<bar>input\<bar>;
             threshold = Fin 0.5;
             minSliceTimeSec = getMinSliceTime (minSliceTime st);
             minSliceSamples = fl_to_int (minSliceTimeSec * sampleRate st)
         in st\<lparr>tempBuffer := (tempBuffer st)(nat (tempRecordPosition st) := input),
               tempRecordedLength := tempRecordPosition st + 1,
               tempSlices := detect_step True threshold minSliceSamples (tempRecordPosition st)
                               currentAmp (tempLastAmplitude st) (tempSlices st),
               tempLastAmplitude := currentAmp,
               tempRecordPosition := tempRecordPosition st + 1\<rparr>)
      else st)"

text \<open>The scan branch of the sample loop.\<close>

definition scan_update :: "engine \<Rightarrow> engine" where
  "scan_update st =
     (if length (slices st) > 1 then
        (if scanValue st > Fin 0.01 then
           (let n1 = int (length (slices st)) - 1;
                targetSliceIndex = clamp_int (fl_to_int (fl_round (scanValue st * fl_of_int n1))) 0 n1
            in if targetSliceIndex \<noteq> lastScanTargetIndex st
                  \<and> active (slices st ! nat targetSliceIndex) then
                 (let start = startSample (slices st ! nat targetSliceIndex);
                      st1 = st\<lparr>currentSliceIndex := targetSliceIndex,
                               playbackPosition := start,
                               playbackPhase := Fin 0,
                               lastScanTargetIndex := targetSliceIndex\<rparr>
                  in if numVoices st1 > 1 \<and> voices st1 \<noteq> [] then
                       st1\<lparr>voices := (voices st1)[0 := (voices st1 ! 0)
                              \<lparr>sliceIndex := targetSliceIndex,
                               voicePlaybackPosition := start,
                               voicePlaybackPhase := Fin 0\<rparr>]\<rparr>
                     else st1)
               else st)
         else st\<lparr>lastScanTargetIndex := - 1\<rparr>)
      else st)"

text \<open>
  Wrapping a playback position at the bounds of its slice, or of the whole recording
  when the index names no active slice. The source has this block in the single-voice
  and in the multi-voice path.
\<close>

definition wrap_position :: "Slice list \<Rightarrow> int \<Rightarrow> int \<Rightarrow> bool \<Rightarrow> int \<Rightarrow> int" where
  "wrap_position sl idx recLen isReverse pos =
     (if sl \<noteq> [] \<and> idx < int (length sl) \<and> active (sl ! nat idx) then
        (let sliceStart = startSample (sl ! nat idx);
             sliceEnd = endSample (sl ! nat idx)
         in if isReverse then (if pos < sliceStart then sliceEnd else pos)
            else (if pos > sliceEnd then sliceStart else pos))
      else
        (if isReverse then (if pos < 0 then recLen - 1 else pos)
         else (if pos \<ge> recLen then 0 else pos)))"

text \<open>
  The interpolated read (both paths): returns the clamped position and the sample.
\<close>

definition read_interp :: "(nat \<Rightarrow> fl) \<Rightarrow> int \<Rightarrow> int \<Rightarrow> fl \<Rightarrow> int \<times> fl" where
  "read_interp buf recLen pos phase =
     (let p = clamp_int pos 0 (recLen - 1);
          pos0 = p;
          pos1 = (if recLen > 1 then c_rem (pos0 + 1) recLen else pos0);
          pos0 = clamp_int pos0 0 (LOOP_BUFFER_SIZE - 1);
          pos1 = clamp_int pos1 0 (LOOP_BUFFER_SIZE - 1);
          frac = clamp \<bar>phase\<bar> (Fin 0) (Fin 1);
          sample = buf (nat pos0) * (Fin 1 - frac) + buf (nat pos1) * frac
      in (p, sample))"

text \<open>Body of the loop over the voices in the multi-voice path.\<close>

definition voice_step ::
    "Slice list \<Rightarrow> (nat \<Rightarrow> fl) \<Rightarrow> int \<Rightarrow> fl \<Rightarrow> nat \<Rightarrow> Voice list \<times> fl \<times> fl \<Rightarrow> Voice list \<times> fl \<times> fl" where
  "voice_step sl buf recLen playbackSpeed v = (\<lambda>(vs, loopL, loopR).
     (let vc = vs ! v;
          voiceSpeed = clamp (playbackSpeed * speedMultiplier vc) (Fin (- 16)) (Fin 16);
          phase1 = voicePlaybackPhase vc + voiceSpeed;
          positionDelta = fl_to_int phase1;
          phase2 = phase1 - fl_of_int positionDelta;
          pos1 = voicePlaybackPosition vc + positionDelta;
          voiceReverse = voiceSpeed < Fin 0;
          pos2 = wrap_position sl (sliceIndex vc) recLen voiceReverse pos1;
          (pos3, sample) = read_interp buf recLen pos2 phase2;
          vs1 = vs[v := vc\<lparr>voicePlaybackPhase := phase2, voicePlaybackPosition := pos3\<rparr>]
      in if isfinite sample then
           (if v mod 2 = 0 then (vs1, loopL + sample, loopR) else (vs1, loopL, loopR + sample))
         else (vs1, loopL, loopR)))"

text \<open>The playback branch: the new state and the pair \<open>(loopL, loopR)\<close>.\<close>

definition playback :: "engine \<Rightarrow> engine \<times> fl \<times> fl" where
  "playback st =
     (if recordedLength st > 0 then
        (let playbackSpeed = speed st;
             isReverse = playbackSpeed < Fin 0
         in if numVoices st = 1 \<or> voices st = [] then
              (let phase1 = playbackPhase st + playbackSpeed;
                   positionDelta = fl_to_int phase1;
                   phase2 = phase1 - fl_of_int positionDelta;
                   pos1 = playbackPosition st + positionDelta;
                   pos2 = wrap_position (slices st) (currentSliceIndex st) (recordedLength st)
                            isReverse pos1;
                   (pos3, sample) = read_interp (loopBuffer st) (recordedLength st) pos2 phase2
               in (st\<lparr>playbackPhase := phase2, playbackPosition := pos3\<rparr>, sample, sample))
            else
              (let (vs, loopL, loopR) =
                     fold (voice_step (slices st) (loopBuffer st) (recordedLength st) playbackSpeed)
                       [0..<nat (numVoices st)] (voices st, Fin 0, Fin 0);
                   leftVoices = (numVoices st + 1) div 2;
                   rightVoices = numVoices st div 2;
                   loopL = (if leftVoices > 0 then loopL / fl_sqrt (fl_of_int leftVoices) else loopL);
                   loopR = (if rightVoices > 0 then loopR / fl_sqrt (fl_of_int rightVoices) else loopR);
                   st1 = st\<lparr>voices := vs\<rparr>
               in ((if vs \<noteq> [] then
                      st1\<lparr>playbackPosition := voicePlaybackPosition (vs ! 0),
                          playbackPhase := voicePlaybackPhase (vs ! 0),
                          currentSliceIndex := sliceIndex (vs ! 0)\<rparr>
                    else st1), loopL, loopR)))
      else (st, Fin 0, Fin 0))"

text \<open>
  Mix, feedback, equaliser, delay, reverb and the output clamp: the new state and the
  pair written to \<open>outputL[i]\<close> and \<open>outputR[i]\<close>.
\<close>

definition effects :: "fl \<Rightarrow> fl \<Rightarrow> fl \<Rightarrow> engine \<Rightarrow> engine \<times> fl \<times> fl" where
  "effects input loopL loopR st =
     (let mixL = input * (Fin 1 - mixAmount st) + loopL * mixAmount st;
          mixR = input * (Fin 1 - mixAmount st) + loopR * mixAmount st;
          fbL = fl_tanh (lastOutputL st * Fin 0.3) / Fin 0.3;
          fbR = fl_tanh (lastOutputR st * Fin 0.3) / Fin 0.3;
          mixL = mixL + fbL * feedbackAmount st;
          mixR = mixR + fbR * feedbackAmount st;
          (e1, eqL, eqR) = eq_process (eq st) mixL mixR;
          (d1, delayed) = delay_process (delay st) [(eqL, eqR)];
          (delayedL, delayedR) = hd delayed;
          delayMixL = eqL * (Fin 1 - delayWet st) + delayedL * delayWet st;
          delayMixR = eqR * (Fin 1 - delayWet st) + delayedR * delayWet st;
          (r1, reverbed) = reverb_process (reverb st) [(delayMixL, delayMixR)];
          (reverbedL, reverbedR) = hd reverbed;
          finalL = delayMixL * (Fin 1 - reverbWet st) + reverbedL * reverbWet st;
          finalR = delayMixR * (Fin 1 - reverbWet st) + reverbedR * reverbWet st
      in (st\<lparr>eq := e1, delay := d1, reverb := r1, lastOutputL := finalL, lastOutputR := finalR\<rparr>,
          clamp finalL (Fin (- 10)) (Fin 10), clamp finalR (Fin (- 10)) (Fin 10)))"

text \<open>One iteration of the sample loop of \<^verbatim>\<open>process\<close>.\<close>

definition process_sample :: "fl \<Rightarrow> engine \<Rightarrow> engine \<times> fl \<times> fl" where
  "process_sample input st =
     (let st1 = record_input input st;
          st2 = scan_update st1;
          (st3, loopL, loopR) = playback st2
      in effects input loopL loopR st3)"

text \<open>
  \<^verbatim>\<open>process(inputL, inputR, outputL, outputR, numSamples)\<close>: \<open>inputR\<close> is not read;
  the result is the new state and the list of the pairs \<open>(outputL[i], outputR[i])\<close>.
\<close>

fun process :: "fl list \<Rightarrow> engine \<Rightarrow> engine \<times> (fl \<times> fl) list" where
  "process [] st = (st, [])"
| "process (x # xs) st =
     (let (st1, oL, oR) = process_sample x st;
          (st2, outs) = process xs st1
      in (st2, (oL, oR) # outs))"

subsection \<open>Predicates used in the properties\<close>

text \<open>A sample is finite and within the output clamp range \<open>[-10, 10]\<close>.\<close>

definition sample_in_range :: "fl \<Rightarrow> bool" where
  "sample_in_range v = (isfinite v \<and> Fin (- 10) \<le> v \<and> v \<le> Fin 10)"





text \<open>The list that \<^verbatim>\<open>rescanSlices\<close> stores for a buffer of positive length.\<close>

definition detect_slices :: "(nat \<Rightarrow> fl) \<Rightarrow> int \<Rightarrow> fl \<Rightarrow> int \<Rightarrow> Slice list" where
  "detect_slices buf len threshold minSliceSamples =
     close_last len minSliceSamples (fst (rescan_loop buf len threshold minSliceSamples))"

text \<open>Length of a closed slice, both ends included.\<close>

definition slice_length :: "Slice \<Rightarrow> int" where
  "slice_length s = endSample s - startSample s + 1"

text \<open>Each slice ends before every later slice starts; starts strictly ascend.\<close>

definition ordered_slices :: "Slice list \<Rightarrow> bool" where
  "ordered_slices sl = sorted_wrt (\<lambda>a b. endSample a < startSample b) sl"

definition ascending_starts :: "Slice list \<Rightarrow> bool" where
  "ascending_starts sl = sorted_wrt (\<lambda>a b. startSample a < startSample b) sl"

text \<open>
  State of the detector before the sample at \<open>pos\<close>: closed slices, then at most one
  open slice at the back, which started before \<open>pos\<close>; a slice opened by the previous
  sample saw an amplitude that was not below the threshold.
\<close>

definition closed_ok :: "Slice \<Rightarrow> bool" where
  "closed_ok s = (active s \<and> 0 \<le> startSample s \<and> startSample s < endSample s)"

definition open_ok :: "fl \<Rightarrow> int \<Rightarrow> fl \<Rightarrow> Slice \<Rightarrow> bool" where
  "open_ok threshold pos lastAmp s =
     (active s \<and> endSample s = 0 \<and> 0 \<le> startSample s \<and> startSample s < pos \<and>
      (if startSample s + 1 = pos then \<not> lastAmp < threshold else True))"

definition det_inv :: "fl \<Rightarrow> int \<Rightarrow> fl \<Rightarrow> Slice list \<Rightarrow> bool" where
  "det_inv threshold pos lastAmp sl =
     (ordered_slices sl \<and> list_all closed_ok (butlast sl) \<and>
      (if sl = [] then True else open_ok threshold pos lastAmp (last sl)))"

text \<open>A committed slice list for a recording of \<open>recLen\<close> samples.\<close>

definition committed_ok :: "int \<Rightarrow> Slice \<Rightarrow> bool" where
  "committed_ok recLen s =
     (active s \<and> 0 \<le> startSample s \<and> startSample s \<le> endSample s \<and> endSample s < recLen)"

definition slices_wf :: "int \<Rightarrow> Slice list \<Rightarrow> bool" where
  "slices_wf recLen sl = (list_all (committed_ok recLen) sl \<and> ordered_slices sl)"

subsection \<open>Sequences of public operations\<close>

text \<open>
  The public member functions of the engine that change its state, as values, and the
  state they lead to from a freshly constructed engine.
\<close>

datatype op =
    SetRecording bool
  | SetLooping bool
  | SetMinSliceTime fl
  | SetScan fl
  | SetFeedback fl
  | SetMix fl
  | SetSpeed fl
  | SetPolyVoices int
  | SetEQLow fl
  | SetEQMid fl
  | SetEQHigh fl
  | SetDelayTime fl fl
  | SetDelayFeedback fl
  | SetDelayWet fl
  | SetReverbRoom fl
  | SetReverbDamping fl
  | SetReverbDecay fl
  | SetReverbWet fl
  | Process "fl list"
  | Clear
  | RescanSlices fl fl
  | RedistributeVoices

fun apply_op :: "op \<Rightarrow> engine \<Rightarrow> engine" where
  "apply_op (SetRecording b) st = setRecording b st"
| "apply_op (SetLooping b) st = setLooping b st"
| "apply_op (SetMinSliceTime t) st = setMinSliceTime t st"
| "apply_op (SetScan s) st = setScan s st"
| "apply_op (SetFeedback a) st = setFeedback a st"
| "apply_op (SetMix m) st = setMix m st"
| "apply_op (SetSpeed s) st = setSpeed s st"
| "apply_op (SetPolyVoices n) st = setPolyVoices n st"
| "apply_op (SetEQLow g) st = setEQLow g st"
| "apply_op (SetEQMid g) st = setEQMid g st"
| "apply_op (SetEQHigh g) st = setEQHigh g st"
| "apply_op (SetDelayTime l r) st = setDelayTime l r st"
| "apply_op (SetDelayFeedback f) st = setDelayFeedback f st"
| "apply_op (SetDelayWet w) st = setDelayWet w st"
| "apply_op (SetReverbRoom r) st = setReverbRoom r st"
| "apply_op (SetReverbDamping d) st = setReverbDamping d st"
| "apply_op (SetReverbDecay d) st = setReverbDecay d st"
| "apply_op (SetReverbWet w) st = setReverbWet w st"
| "apply_op (Process xs) st = fst (process xs st)"
| "apply_op Clear st = clear st"
| "apply_op (RescanSlices threshold t) st = rescanSlices threshold t st"
| "apply_op RedistributeVoices st = redistributeVoices st"

definition run :: "op list \<Rightarrow> engine \<Rightarrow> engine" where
  "run ops st = fold apply_op ops st"

text \<open>
  What holds of the recorder in every state the operations reach: the committed list
  is well formed for the recorded length, and while recording the staging list is a
  detector state for the staging position.
\<close>

definition recorder_inv :: "engine \<Rightarrow> bool" where
  "recorder_inv st =
     (slices_wf (recordedLength st) (slices st) \<and>
      (if isRecording st then
         det_inv (Fin (1 / 2)) (tempRecordPosition st) (tempLastAmplitude st) (tempSlices st) \<and>
         tempRecordedLength st = tempRecordPosition st \<and> 0 \<le> tempRecordPosition st
       else True))"

text \<open>
  The part of the state that the recording branch reads and writes, and the branch as
  a function on that part (used to follow a recording sample by sample).
\<close>

record recorder =
  rc_recording :: bool
  rc_position :: int
  rc_length :: int
  rc_lastAmp :: fl
  rc_slices :: "Slice list"
  rc_buffer :: "nat \<Rightarrow> fl"
  rc_minSamples :: int

definition recorder_of :: "engine \<Rightarrow> recorder" where
  "recorder_of st =
     \<lparr>rc_recording = isRecording st, rc_position = tempRecordPosition st,
      rc_length = tempRecordedLength st, rc_lastAmp = tempLastAmplitude st,
      rc_slices = tempSlices st, rc_buffer = tempBuffer st,
      rc_minSamples = fl_to_int (getMinSliceTime (minSliceTime st) * sampleRate st)\<rparr>"

definition recorder_step :: "fl \<Rightarrow> recorder \<Rightarrow> recorder" where
  "recorder_step input r =
     (if rc_recording r \<and> rc_position r < LOOP_BUFFER_SIZE then
        r\<lparr>rc_buffer := (rc_buffer r)(nat (rc_position r) := input),
          rc_length := rc_position r + 1,
          rc_slices := detect_step True (Fin 0.5) (rc_minSamples r) (rc_position r)
                         \<bar>input\<bar> (rc_lastAmp r) (rc_slices r),
          rc_lastAmp := \<bar>input\<bar>,
          rc_position := rc_position r + 1\<rparr>
      else r)"






subsection \<open>Concrete engines used as examples\<close>

text \<open>A seed: the random stream that is constantly 0.\<close>

definition seed0 :: "nat \<Rightarrow> nat" where
  "seed0 i = 0"

text \<open>A buffer of zeros except samples 100..199, which are 1.\<close>

definition pulse_buffer :: "nat \<Rightarrow> fl" where
  "pulse_buffer i = (if 100 \<le> i \<and> i \<le> 199 then Fin 1 else Fin 0)"

text \<open>An engine at 48 kHz whose committed recording is the first 1000 samples of it.\<close>

definition pulse_engine :: engine where
  "pulse_engine =
     (Alien4AudioEngine (Fin 48000) seed0)\<lparr>loopBuffer := pulse_buffer, recordedLength := 1000\<rparr>"

text \<open>
  A 1 kHz engine that records four samples with the minimum slice time at its lowest
  setting (one sample) and stops.
\<close>

definition short_recording :: "op list" where
  "short_recording =
     [SetMinSliceTime (Fin 0), SetRecording True, Process [Fin 1, Fin 0, Fin 1, Fin 0],
      SetRecording False]"


text \<open>A recording of three silent samples.\<close>

definition silent_recording :: "op list" where
  "silent_recording = [SetRecording True, Process [Fin 0, Fin 0, Fin 0], SetRecording False]"


text \<open>A recording of one sample that is \<open>+inf\<close>.\<close>

definition inf_recording :: "op list" where
  "inf_recording = [SetRecording True, Process [PInf], SetRecording False]"

text \<open>
  The index returned by \<^verbatim>\<open>getCurrentSlice()\<close> is 0 for an empty list and a valid
  index otherwise.
\<close>

definition current_slice_ok :: "engine \<Rightarrow> bool" where
  "current_slice_ok st =
     (if slices st = [] then getCurrentSlice st = 0
      else 0 \<le> getCurrentSlice st \<and> getCurrentSlice st \<le> getNumSlices st - 1)"

text \<open>
  A voice is bound to a slice of the committed list that is active and starts inside
  the recording.
\<close>

definition bound_ok :: "engine \<Rightarrow> Voice \<Rightarrow> bool" where
  "bound_ok st v =
     (0 \<le> sliceIndex v \<and> sliceIndex v < int (length (slices st)) \<and>
      active (slices st ! nat (sliceIndex v)) \<and>
      startSample (slices st ! nat (sliceIndex v)) < recordedLength st)"

text \<open>
  A 1 kHz engine records six samples with two onsets (slices 0..1 and 2..5), switches
  to two voices, scans to the last slice, renders one sample, rescans with a minimum
  of three samples (only the slice 2..5 remains) and renders one more sample.
\<close>

definition stale_voice_run :: "op list" where
  "stale_voice_run =
     [SetMinSliceTime (Fin 0), SetRecording True,
      Process [Fin 1, Fin 0, Fin 1, Fin 0, Fin 0, Fin 0], SetRecording False,
      SetPolyVoices 2, SetScan (Fin 1), Process [Fin 0],
      RescanSlices (Fin 0.5) (Fin 0.0035), Process [Fin 0]]"

text \<open>The same, followed by a change to one voice and then to eight.\<close>

definition stale_resize_run :: "op list" where
  "stale_resize_run = stale_voice_run @ [SetPolyVoices 1, SetPolyVoices 8]"

subsection \<open>Two readings of the reverb's sample loop\<close>

text \<open>One allpass stage applied to one sample, on stage \<open>j\<close> of the filter arrays.\<close>

definition allpass_own ::
    "nat \<Rightarrow> fl \<times> fl list list \<times> int list \<Rightarrow> fl \<times> fl list list \<times> int list" where
  "allpass_own j = (\<lambda>(x, bufs, idxs).
     (let (out, b, i) = processAllpassFilter x (bufs ! j) (idxs ! j)
      in (out, bufs[j := b], idxs[j := i])))"

text \<open>
  The sample loop as the specification describes it: each channel sums its four comb
  filters, scales by 0.25 and passes the sum through two allpass stages of its own
  (stages 0 and 1 for the left channel, stages 2 and 3 for the right channel), then
  through the highpass.
\<close>

definition reverb_sample_claimed ::
    "fl \<Rightarrow> fl \<Rightarrow> fl \<Rightarrow> ReverbProcessor \<Rightarrow> fl \<Rightarrow> fl \<Rightarrow> ReverbProcessor \<times> fl \<times> fl" where
  "reverb_sample_claimed feedback dampingCoeff roomScale r leftIn rightIn =
     (let inputL = leftIn * roomScale;
          inputR = rightIn * roomScale;
          (combOutL, cbL, ciL, clL) =
             fold (comb_step inputL feedback dampingCoeff) [0, 1, 2, 3]
               (Fin 0, combBuffersL r, combIndicesL r, combLpL r);
          (combOutR, cbR, ciR, clR) =
             fold (comb_step inputR feedback dampingCoeff) [0, 1, 2, 3]
               (Fin 0, combBuffersR r, combIndicesR r, combLpR r);
          combOutL = combOutL * Fin 0.25;
          combOutR = combOutR * Fin 0.25;
          (diffusedL, abL, aiL) =
             allpass_own 1 (allpass_own 0 (combOutL, allpassBuffers r, allpassIndices r));
          (diffusedR, ab, ai) = allpass_own 3 (allpass_own 2 (combOutR, abL, aiL));
          hpCutoff = Fin 100 / (rv_sampleRate r * Fin 0.5);
          hpCutoff = std_max (Fin 0.001) (std_min (Fin 0.1) hpCutoff);
          hpL = hpStateL r + (diffusedL - hpStateL r) * hpCutoff;
          hpR = hpStateR r + (diffusedR - hpStateR r) * hpCutoff
      in (r\<lparr>combBuffersL := cbL, combIndicesL := ciL, combLpL := clL,
            combBuffersR := cbR, combIndicesR := ciR, combLpR := clR,
            allpassBuffers := ab, allpassIndices := ai,
            hpStateL := hpL, hpStateR := hpR\<rparr>,
          diffusedL - hpL, diffusedR - hpR))"

text \<open>
  The sample loop with the diffusion written out: four allpass stages in series, each
  filtering the left sample and then the right sample on the one buffer and index of
  that stage.
\<close>

definition reverb_sample_shared ::
    "fl \<Rightarrow> fl \<Rightarrow> fl \<Rightarrow> ReverbProcessor \<Rightarrow> fl \<Rightarrow> fl \<Rightarrow> ReverbProcessor \<times> fl \<times> fl" where
  "reverb_sample_shared feedback dampingCoeff roomScale r leftIn rightIn =
     (let inputL = leftIn * roomScale;
          inputR = rightIn * roomScale;
          (combOutL, cbL, ciL, clL) =
             fold (comb_step inputL feedback dampingCoeff) [0, 1, 2, 3]
               (Fin 0, combBuffersL r, combIndicesL r, combLpL r);
          (combOutR, cbR, ciR, clR) =
             fold (comb_step inputR feedback dampingCoeff) [0, 1, 2, 3]
               (Fin 0, combBuffersR r, combIndicesR r, combLpR r);
          combOutL = combOutL * Fin 0.25;
          combOutR = combOutR * Fin 0.25;
          (l0, bl0, il0) = processAllpassFilter combOutL (allpassBuffers r ! 0) (allpassIndices r ! 0);
          (r0, b0, i0) = processAllpassFilter combOutR bl0 il0;
          (l1, bl1, il1) = processAllpassFilter l0 (allpassBuffers r ! 1) (allpassIndices r ! 1);
          (r1, b1, i1) = processAllpassFilter r0 bl1 il1;
          (l2, bl2, il2) = processAllpassFilter l1 (allpassBuffers r ! 2) (allpassIndices r ! 2);
          (r2, b2, i2) = processAllpassFilter r1 bl2 il2;
          (l3, bl3, il3) = processAllpassFilter l2 (allpassBuffers r ! 3) (allpassIndices r ! 3);
          (r3, b3, i3) = processAllpassFilter r2 bl3 il3;
          hpCutoff = Fin 100 / (rv_sampleRate r * Fin 0.5);
          hpCutoff = std_max (Fin 0.001) (std_min (Fin 0.1) hpCutoff);
          hpL = hpStateL r + (l3 - hpStateL r) * hpCutoff;
          hpR = hpStateR r + (r3 - hpStateR r) * hpCutoff
      in (r\<lparr>combBuffersL := cbL, combIndicesL := ciL, combLpL := clL,
            combBuffersR := cbR, combIndicesR := ciR, combLpR := clR,
            allpassBuffers := [b0, b1, b2, b3], allpassIndices := [i0, i1, i2, i3],
            hpStateL := hpL, hpStateR := hpR\<rparr>,
          l3 - hpL, r3 - hpR))"

text \<open>The reverb has its four allpass buffers and indices.\<close>

definition reverb_wf :: "ReverbProcessor \<Rightarrow> bool" where
  "reverb_wf r = (length (allpassBuffers r) = 4 \<and> length (allpassIndices r) = 4)"

text \<open>
  The state of a new 48 kHz reverb \<open>n\<close> samples after a unit impulse on the right
  channel, as long as no comb filter has returned the impulse (\<open>1 \<le> n \<le> 1116\<close>):
  all buffers are zero except the first cell of the right comb buffers.
\<close>

definition after_impulse :: "nat \<Rightarrow> ReverbProcessor" where
  "after_impulse n =
     \<lparr>rv_sampleRate = Fin 48000,
      combBuffersL = [replicate 1557 (Fin 0), replicate 1617 (Fin 0),
                      replicate 1491 (Fin 0), replicate 1422 (Fin 0)],
      combBuffersR = [(replicate 1277 (Fin 0))[0 := Fin 1], (replicate 1356 (Fin 0))[0 := Fin 1],
                      (replicate 1188 (Fin 0))[0 := Fin 1], (replicate 1116 (Fin 0))[0 := Fin 1]],
      combIndicesL = [int (n mod 1557), int (n mod 1617), int (n mod 1491), int (n mod 1422)],
      combIndicesR = [int (n mod 1277), int (n mod 1356), int (n mod 1188), int (n mod 1116)],
      combLpL = [Fin 0, Fin 0, Fin 0, Fin 0],
      combLpR = [Fin 0, Fin 0, Fin 0, Fin 0],
      allpassBuffers = [replicate 556 (Fin 0), replicate 441 (Fin 0),
                        replicate 341 (Fin 0), replicate 225 (Fin 0)],
      allpassIndices = [int ((2 * n) mod 556), int ((2 * n) mod 441),
                        int ((2 * n) mod 341), int ((2 * n) mod 225)],
      hpStateL = Fin 0, hpStateR = Fin 0,
      roomSize = Fin 0.5, damping = Fin 0.4, decay = Fin 0.6\<rparr>"

text \<open>A unit impulse on the right channel followed by 1115 silent samples.\<close>

definition right_impulse :: "(fl \<times> fl) list" where
  "right_impulse = (Fin 0, Fin 1) # replicate 1115 (Fin 0, Fin 0)"

section \<open>Properties of the model\<close>

text \<open>The arithmetic and the comparisons of \<open>fl\<close>, for unfolding in proofs.\<close>

lemmas fl_arith =
  plus_fl_def uminus_fl_def minus_fl_def times_fl_def divide_fl_def inverse_fl_def
  abs_fl_def less_fl_def less_eq_fl_def

declare process.simps [simp del]

subsection \<open>Output range of the render call\<close>

lemma clamp_in_range: "sample_in_range (clamp v (Fin (- 10)) (Fin 10))"
  by (cases v) (simp_all add: sample_in_range_def clamp_def std_min_def std_max_def fl_arith)

lemma effects_in_range:
  "effects x l r st = (st', oL, oR) \<Longrightarrow> sample_in_range oL \<and> sample_in_range oR"
  by (auto simp: effects_def Let_def clamp_in_range split: prod.splits)

lemma process_sample_in_range:
  "process_sample x st = (st', oL, oR) \<Longrightarrow> sample_in_range oL \<and> sample_in_range oR"
  unfolding process_sample_def Let_def
  by (auto split: prod.splits dest: effects_in_range)

text \<open>
  Claim C1. For every engine state and every list of \<open>n\<close> input samples, finite or not,
  \<^verbatim>\<open>process\<close> writes exactly \<open>n\<close> output pairs, and every written sample of both
  channels is a finite value in \<open>[-10, 10]\<close>. The state is arbitrary, so this covers
  every parameter value the setters can have stored.
\<close>

theorem process_output_bounded:
  "length (snd (process xs st)) = length xs \<and>
   list_all (\<lambda>(oL, oR). sample_in_range oL \<and> sample_in_range oR) (snd (process xs st))"
proof (induction xs arbitrary: st)
  case Nil
  show ?case by (simp add: process.simps)
next
  case (Cons x xs)
  obtain st1 oL oR where ps: "process_sample x st = (st1, oL, oR)"
    by (cases "process_sample x st") auto
  obtain st2 outs where pr: "process xs st1 = (st2, outs)"
    by (cases "process xs st1") auto
  from Cons.IH [of st1] pr have "length outs = length xs"
    and "list_all (\<lambda>(oL, oR). sample_in_range oL \<and> sample_in_range oR) outs" by simp_all
  with ps pr process_sample_in_range [OF ps] show ?case by (simp add: process.simps)
qed

theorem process_output_bounded_witness:
  "sample_in_range (fst (hd (snd (process [NaN] (Alien4AudioEngine (Fin 48000) seed0)))))"
proof -
  let ?o = "snd (process [NaN] (Alien4AudioEngine (Fin 48000) seed0))"
  have len: "length ?o = 1"
    and all: "list_all (\<lambda>(oL, oR). sample_in_range oL \<and> sample_in_range oR) ?o"
    using process_output_bounded [of "[NaN]" "Alien4AudioEngine (Fin 48000) seed0"]
    by simp_all
  from len obtain p where p: "?o = [p]"
    by (cases ?o) auto
  with all show ?thesis by (cases p) simp
qed

subsection \<open>The equaliser at 0 dB\<close>




















subsection \<open>The onset detector\<close>

lemma fl_le_not_less: "(a::fl) \<le> b \<Longrightarrow> \<not> b < a"
  by (cases a; cases b) (simp_all add: fl_arith)

lemma ordered_snoc:
  "ordered_slices (xs @ [x]) = (ordered_slices xs \<and> (\<forall>a\<in>set xs. endSample a < startSample x))"
  by (auto simp: ordered_slices_def sorted_wrt_append)

lemma ordered_butlast: "ordered_slices sl \<Longrightarrow> ordered_slices (butlast sl)"
  by (cases sl rule: rev_cases) (simp_all add: ordered_snoc)

lemma upd_back_snoc: "upd_back f (xs @ [x]) = xs @ [f x]"
  by (simp add: upd_back_def)

lemma upd_back_single: "upd_back f [x] = [f x]"
  by (simp add: upd_back_def)

lemma upd_back_snoc2: "upd_back f (xs @ [a, x]) = xs @ [a, f x]"
  by (simp add: upd_back_def butlast_append)

lemma closed_ok_ends:
  "list_all closed_ok cs \<Longrightarrow> ordered_slices cs \<Longrightarrow> cs \<noteq> [] \<Longrightarrow> 0 < endSample (last cs)"
  by (cases cs rule: rev_cases) (auto simp: closed_ok_def)

lemma detect_step_inv:
  assumes inv: "det_inv thr pos lastAmp sl" and pos: "0 \<le> pos"
  shows "det_inv thr (pos + 1) cur (detect_step b thr m pos cur lastAmp sl)"
proof (cases "lastAmp < thr \<and> thr \<le> cur")
  case False
  show ?thesis
  proof (cases sl rule: rev_cases)
    case Nil
    with False show ?thesis by (auto simp: detect_step_def det_inv_def ordered_slices_def)
  next
    case (snoc cs o1)
    with inv have "open_ok thr pos lastAmp o1" "ordered_slices (cs @ [o1])" "list_all closed_ok cs"
      by (simp_all add: det_inv_def)
    with False snoc show ?thesis
      by (auto simp: detect_step_def det_inv_def upd_back_snoc open_ok_def Let_def ordered_snoc)
  qed
next
  case True
  then have cross: "lastAmp < thr" "thr \<le> cur" by simp_all
  have ncur: "\<not> cur < thr" using cross(2) by (rule fl_le_not_less)
  have new_ok: "open_ok thr (pos + 1) cur (newSlice pos)"
    using pos ncur by (simp add: open_ok_def newSlice_def)
  show ?thesis
  proof (cases sl rule: rev_cases)
    case Nil
    with True new_ok show ?thesis
      by (simp add: detect_step_def det_inv_def upd_back_single Let_def newSlice_def
          ordered_slices_def open_ok_def)
  next
    case (snoc cs o1)
    with inv have o1: "open_ok thr pos lastAmp o1" and ord: "ordered_slices (cs @ [o1])"
      and cl: "list_all closed_ok cs"
      by (simp_all add: det_inv_def)
    from o1 cross have st: "startSample o1 + 1 < pos" "0 \<le> startSample o1" "active o1"
      "endSample o1 = 0"
      by (auto simp: open_ok_def split: if_splits)
    from ord have ordcs: "ordered_slices cs" and before: "\<forall>a\<in>set cs. endSample a < startSample o1"
      by (simp_all add: ordered_snoc)
    show ?thesis
    proof (cases "pos - startSample o1 \<ge> m")
      case long: True
      let ?c = "o1\<lparr>endSample := pos - 1\<rparr>"
      have c_ok: "closed_ok ?c" using st by (simp add: closed_ok_def)
      have step: "detect_step b thr m pos cur lastAmp sl
                    = cs @ [?c, (newSlice pos)\<lparr>peakAmplitude := std_max (Fin 0) cur\<rparr>]"
        using True long st snoc
        by (simp add: detect_step_def upd_back_snoc upd_back_snoc2 Let_def newSlice_def)
      have "ordered_slices (cs @ [?c])" using ordcs before by (simp add: ordered_snoc)
      moreover have "\<forall>a\<in>set (cs @ [?c]). endSample a < pos"
        using before st by auto
      ultimately have "ordered_slices ((cs @ [?c]) @ [(newSlice pos)\<lparr>peakAmplitude := std_max (Fin 0) cur\<rparr>])"
        unfolding ordered_snoc [of "cs @ [?c]"] by (simp add: newSlice_def)
      then show ?thesis
        unfolding step det_inv_def using cl c_ok new_ok
        by (simp add: open_ok_def newSlice_def butlast_append)
    next
      case short: False
      have endpos: "cs \<noteq> [] \<Longrightarrow> 0 < endSample (last cs)"
        using closed_ok_ends [OF cl ordcs] by simp
      have step: "detect_step b thr m pos cur lastAmp sl
                    = cs @ [(newSlice pos)\<lparr>peakAmplitude := std_max (Fin 0) cur\<rparr>]"
        using True short st snoc endpos
        by (auto simp: detect_step_def upd_back_snoc upd_back_single Let_def newSlice_def)
      have "ordered_slices (cs @ [(newSlice pos)\<lparr>peakAmplitude := std_max (Fin 0) cur\<rparr>])"
        using ordcs before st by (auto simp: ordered_snoc newSlice_def)
      then show ?thesis
        unfolding step det_inv_def using cl new_ok
        by (simp add: open_ok_def newSlice_def)
    qed
  qed
qed

lemma detect_step_shape:
  assumes inv: "det_inv thr pos lastAmp sl"
  shows "detect_step b thr m pos cur lastAmp sl =
     (if lastAmp < thr \<and> thr \<le> cur then
        (if sl \<noteq> [] \<and> m \<le> pos - startSample (last sl)
         then butlast sl @ [(last sl)\<lparr>endSample := pos - 1\<rparr>,
                            (newSlice pos)\<lparr>peakAmplitude := std_max (Fin 0) cur\<rparr>]
         else butlast sl @ [(newSlice pos)\<lparr>peakAmplitude := std_max (Fin 0) cur\<rparr>])
      else if sl = [] then []
      else butlast sl @ [(last sl)\<lparr>peakAmplitude := std_max (peakAmplitude (last sl)) cur\<rparr>])"
proof (cases sl rule: rev_cases)
  case Nil
  then show ?thesis
    by (simp add: detect_step_def upd_back_single Let_def newSlice_def)
next
  case (snoc cs o1)
  with inv have o1: "open_ok thr pos lastAmp o1" and ord: "ordered_slices (cs @ [o1])"
    and cl: "list_all closed_ok cs"
    by (simp_all add: det_inv_def)
  from ord have ordcs: "ordered_slices cs" by (simp add: ordered_snoc)
  have endpos: "cs \<noteq> [] \<Longrightarrow> 0 < endSample (last cs)"
    using closed_ok_ends [OF cl ordcs] by simp
  show ?thesis
  proof (cases "lastAmp < thr \<and> thr \<le> cur")
    case False
    with snoc o1 show ?thesis
      by (auto simp: detect_step_def upd_back_snoc open_ok_def)
  next
    case True
    from o1 True have st: "startSample o1 + 1 < pos" "active o1" "endSample o1 = 0"
      "0 \<le> startSample o1"
      by (auto simp: open_ok_def split: if_splits)
    show ?thesis
      using True st snoc endpos
      by (auto simp: detect_step_def upd_back_snoc upd_back_snoc2 upd_back_single Let_def
          newSlice_def)
  qed
qed

lemma detect_step_minlen:
  assumes inv: "det_inv thr pos lastAmp sl"
    and len: "list_all (\<lambda>s. m \<le> slice_length s) (butlast sl)"
  shows "list_all (\<lambda>s. m \<le> slice_length s) (butlast (detect_step b thr m pos cur lastAmp sl))"
  unfolding detect_step_shape [OF inv]
  using len by (auto simp: butlast_append slice_length_def)

lemma rescan_loop_Suc:
  "rescan_loop buf (int (Suc n)) thr m = rescan_step buf thr m n (rescan_loop buf (int n) thr m)"
  unfolding rescan_loop_def nat_int by simp

lemma rescan_loop_inv:
  "det_inv thr (int n) (snd (rescan_loop buf (int n) thr m)) (fst (rescan_loop buf (int n) thr m)) \<and>
   list_all (\<lambda>s. m \<le> slice_length s) (butlast (fst (rescan_loop buf (int n) thr m)))"
proof (induction n)
  case 0
  show ?case by (simp add: rescan_loop_def det_inv_def ordered_slices_def)
next
  case (Suc n)
  obtain sl la where r: "rescan_loop buf (int n) thr m = (sl, la)"
    by (cases "rescan_loop buf (int n) thr m") auto
  with Suc have inv: "det_inv thr (int n) la sl"
    and len: "list_all (\<lambda>s. m \<le> slice_length s) (butlast sl)" by simp_all
  have "det_inv thr (int n + 1) \<bar>buf n\<bar> (detect_step False thr m (int n) \<bar>buf n\<bar> la sl)"
    by (rule detect_step_inv [OF inv]) simp
  moreover have "int n + 1 = int (Suc n)" by simp
  ultimately show ?case
    using detect_step_minlen [OF inv len, of False "\<bar>buf n\<bar>"]
    by (simp add: rescan_loop_Suc r rescan_step_def Let_def del: of_nat_Suc)
qed

lemma close_last_wf:
  assumes inv: "det_inv thr len lastAmp sl"
  shows "slices_wf len (close_last len m sl)"
proof (cases sl rule: rev_cases)
  case Nil
  then show ?thesis by (simp add: close_last_def slices_wf_def ordered_slices_def)
next
  case (snoc cs o1)
  with inv have o1: "open_ok thr len lastAmp o1" and ord: "ordered_slices (cs @ [o1])"
    and cl: "list_all closed_ok cs"
    by (simp_all add: det_inv_def)
  from ord have ordcs: "ordered_slices cs" and before: "\<forall>a\<in>set cs. endSample a < startSample o1"
    by (simp_all add: ordered_snoc)
  from o1 have st: "startSample o1 < len" "0 \<le> startSample o1" "active o1" "endSample o1 = 0"
    by (simp_all add: open_ok_def)
  have cs_ok: "list_all (committed_ok len) cs"
    using cl before st by (auto simp: list_all_iff closed_ok_def committed_ok_def)
  show ?thesis
    using snoc st cs_ok ordcs before
    by (auto simp: close_last_def upd_back_snoc slices_wf_def ordered_snoc committed_ok_def Let_def)
qed


lemma detect_slices_wf: "slices_wf (int n) (detect_slices buf (int n) thr m)"
  unfolding detect_slices_def
  using rescan_loop_inv [of thr n buf m] by (blast intro: close_last_wf)


lemma ordered_imp_ascending:
  "list_all (committed_ok n) sl \<Longrightarrow> ordered_slices sl \<Longrightarrow> ascending_starts sl"
proof (induction sl)
  case Nil
  show ?case by (simp add: ascending_starts_def)
next
  case (Cons a sl)
  then show ?case
    by (fastforce simp: ascending_starts_def ordered_slices_def list_all_iff committed_ok_def)
qed

lemma fl_pos_threshold: "Fin 0 < thr \<Longrightarrow> \<not> thr \<le> Fin 0"
  by (cases thr) (simp_all add: fl_arith)

lemma rescan_loop_silent:
  assumes thr: "Fin 0 < thr" and z: "\<forall>i<n. buf i = Fin 0"
  shows "rescan_loop buf (int n) thr m = ([], Fin 0)"
  using z
proof (induction n)
  case 0
  show ?case by (simp add: rescan_loop_def)
next
  case (Suc n)
  then have "rescan_loop buf (int n) thr m = ([], Fin 0)" and "buf n = Fin 0" by simp_all
  then show ?case
    using fl_pos_threshold [OF thr]
    by (simp add: rescan_loop_Suc rescan_step_def detect_step_def fl_arith del: of_nat_Suc)
qed

lemma detect_slices_silent:
  assumes "Fin 0 < thr" and "\<forall>i<n. buf i = Fin 0"
  shows "detect_slices buf (int n) thr m = []"
  by (simp add: detect_slices_def rescan_loop_silent [OF assms] close_last_def)

subsection \<open>What each operation leaves unchanged\<close>

lemma redistributeVoices_frame:
  "slices (redistributeVoices st) = slices st"
  "recordedLength (redistributeVoices st) = recordedLength st"
  "isRecording (redistributeVoices st) = isRecording st"
  "tempSlices (redistributeVoices st) = tempSlices st"
  "tempRecordPosition (redistributeVoices st) = tempRecordPosition st"
  "tempRecordedLength (redistributeVoices st) = tempRecordedLength st"
  "tempLastAmplitude (redistributeVoices st) = tempLastAmplitude st"
  "tempBuffer (redistributeVoices st) = tempBuffer st"
  "loopBuffer (redistributeVoices st) = loopBuffer st"
  "minSliceTime (redistributeVoices st) = minSliceTime st"
  "sampleRate (redistributeVoices st) = sampleRate st"
  "currentSliceIndex (redistributeVoices st) = currentSliceIndex st"
  "numVoices (redistributeVoices st) = numVoices st"
  by (simp_all add: redistributeVoices_def split_def Let_def)

lemma setPolyVoices_frame:
  "slices (setPolyVoices n st) = slices st"
  "recordedLength (setPolyVoices n st) = recordedLength st"
  "isRecording (setPolyVoices n st) = isRecording st"
  "tempSlices (setPolyVoices n st) = tempSlices st"
  "tempRecordPosition (setPolyVoices n st) = tempRecordPosition st"
  "tempRecordedLength (setPolyVoices n st) = tempRecordedLength st"
  "tempLastAmplitude (setPolyVoices n st) = tempLastAmplitude st"
  "tempBuffer (setPolyVoices n st) = tempBuffer st"
  "loopBuffer (setPolyVoices n st) = loopBuffer st"
  "minSliceTime (setPolyVoices n st) = minSliceTime st"
  "sampleRate (setPolyVoices n st) = sampleRate st"
  "currentSliceIndex (setPolyVoices n st) = currentSliceIndex st"
  by (simp_all add: setPolyVoices_def split_def Let_def)

lemma setScan_frame:
  "slices (setScan s st) = slices st"
  "recordedLength (setScan s st) = recordedLength st"
  "isRecording (setScan s st) = isRecording st"
  "tempSlices (setScan s st) = tempSlices st"
  "tempRecordPosition (setScan s st) = tempRecordPosition st"
  "tempRecordedLength (setScan s st) = tempRecordedLength st"
  "tempLastAmplitude (setScan s st) = tempLastAmplitude st"
  "tempBuffer (setScan s st) = tempBuffer st"
  "loopBuffer (setScan s st) = loopBuffer st"
  "minSliceTime (setScan s st) = minSliceTime st"
  "sampleRate (setScan s st) = sampleRate st"
  "currentSliceIndex (setScan s st) = currentSliceIndex st"
  "numVoices (setScan s st) = numVoices st"
  by (simp_all add: setScan_def Let_def redistributeVoices_frame)

lemma scan_update_frame:
  "slices (scan_update st) = slices st"
  "recordedLength (scan_update st) = recordedLength st"
  "isRecording (scan_update st) = isRecording st"
  "tempSlices (scan_update st) = tempSlices st"
  "tempRecordPosition (scan_update st) = tempRecordPosition st"
  "tempRecordedLength (scan_update st) = tempRecordedLength st"
  "tempLastAmplitude (scan_update st) = tempLastAmplitude st"
  "tempBuffer (scan_update st) = tempBuffer st"
  "loopBuffer (scan_update st) = loopBuffer st"
  "minSliceTime (scan_update st) = minSliceTime st"
  "sampleRate (scan_update st) = sampleRate st"
  "numVoices (scan_update st) = numVoices st"
  by (simp_all add: scan_update_def Let_def)

lemma playback_frame:
  "slices (fst (playback st)) = slices st"
  "recordedLength (fst (playback st)) = recordedLength st"
  "isRecording (fst (playback st)) = isRecording st"
  "tempSlices (fst (playback st)) = tempSlices st"
  "tempRecordPosition (fst (playback st)) = tempRecordPosition st"
  "tempRecordedLength (fst (playback st)) = tempRecordedLength st"
  "tempLastAmplitude (fst (playback st)) = tempLastAmplitude st"
  "tempBuffer (fst (playback st)) = tempBuffer st"
  "loopBuffer (fst (playback st)) = loopBuffer st"
  "minSliceTime (fst (playback st)) = minSliceTime st"
  "sampleRate (fst (playback st)) = sampleRate st"
  "numVoices (fst (playback st)) = numVoices st"
  by (simp_all add: playback_def Let_def split_def)

lemma effects_frame:
  "slices (fst (effects x l r st)) = slices st"
  "recordedLength (fst (effects x l r st)) = recordedLength st"
  "isRecording (fst (effects x l r st)) = isRecording st"
  "tempSlices (fst (effects x l r st)) = tempSlices st"
  "tempRecordPosition (fst (effects x l r st)) = tempRecordPosition st"
  "tempRecordedLength (fst (effects x l r st)) = tempRecordedLength st"
  "tempLastAmplitude (fst (effects x l r st)) = tempLastAmplitude st"
  "tempBuffer (fst (effects x l r st)) = tempBuffer st"
  "loopBuffer (fst (effects x l r st)) = loopBuffer st"
  "minSliceTime (fst (effects x l r st)) = minSliceTime st"
  "sampleRate (fst (effects x l r st)) = sampleRate st"
  "currentSliceIndex (fst (effects x l r st)) = currentSliceIndex st"
  "numVoices (fst (effects x l r st)) = numVoices st"
  "voices (fst (effects x l r st)) = voices st"
  "playbackPosition (fst (effects x l r st)) = playbackPosition st"
  "playbackPhase (fst (effects x l r st)) = playbackPhase st"
  "lastScanTargetIndex (fst (effects x l r st)) = lastScanTargetIndex st"
  "scanValue (fst (effects x l r st)) = scanValue st"
  "speed (fst (effects x l r st)) = speed st"
  "randomEngine (fst (effects x l r st)) = randomEngine st"
  "lastMinSliceTime (fst (effects x l r st)) = lastMinSliceTime st"
  "lastScanValue (fst (effects x l r st)) = lastScanValue st"
  by (simp_all add: effects_def Let_def split_def)

lemma record_input_frame:
  "slices (record_input x st) = slices st"
  "recordedLength (record_input x st) = recordedLength st"
  "isRecording (record_input x st) = isRecording st"
  "loopBuffer (record_input x st) = loopBuffer st"
  "minSliceTime (record_input x st) = minSliceTime st"
  "sampleRate (record_input x st) = sampleRate st"
  "currentSliceIndex (record_input x st) = currentSliceIndex st"
  "numVoices (record_input x st) = numVoices st"
  "voices (record_input x st) = voices st"
  by (simp_all add: record_input_def Let_def)

lemma process_sample_fst:
  "fst (process_sample x st) =
     fst (effects x (fst (snd (playback (scan_update (record_input x st)))))
            (snd (snd (playback (scan_update (record_input x st)))))
            (fst (playback (scan_update (record_input x st)))))"
  by (simp add: process_sample_def Let_def split_def)

lemma process_sample_frame:
  "slices (fst (process_sample x st)) = slices st"
  "recordedLength (fst (process_sample x st)) = recordedLength st"
  "isRecording (fst (process_sample x st)) = isRecording st"
  "loopBuffer (fst (process_sample x st)) = loopBuffer st"
  "minSliceTime (fst (process_sample x st)) = minSliceTime st"
  "sampleRate (fst (process_sample x st)) = sampleRate st"
  "numVoices (fst (process_sample x st)) = numVoices st"
  "tempSlices (fst (process_sample x st)) = tempSlices (record_input x st)"
  "tempRecordPosition (fst (process_sample x st)) = tempRecordPosition (record_input x st)"
  "tempRecordedLength (fst (process_sample x st)) = tempRecordedLength (record_input x st)"
  "tempLastAmplitude (fst (process_sample x st)) = tempLastAmplitude (record_input x st)"
  "tempBuffer (fst (process_sample x st)) = tempBuffer (record_input x st)"
  by (simp_all add: process_sample_fst effects_frame playback_frame scan_update_frame
      record_input_frame)

lemma process_Cons_fst:
  "fst (process (x # xs) st) = fst (process xs (fst (process_sample x st)))"
  by (simp add: process.simps split_def Let_def)

subsection \<open>The recorder invariant\<close>

lemma record_input_inv:
  assumes "recorder_inv st"
  shows "recorder_inv (record_input x st)"
proof (cases "isRecording st \<and> tempRecordPosition st < LOOP_BUFFER_SIZE")
  case False
  with assms show ?thesis by (auto simp: record_input_def)
next
  case True
  with assms have inv: "det_inv (Fin (1 / 2)) (tempRecordPosition st) (tempLastAmplitude st) (tempSlices st)"
    and pos: "0 \<le> tempRecordPosition st" and wf: "slices_wf (recordedLength st) (slices st)"
    by (simp_all add: recorder_inv_def)
  show ?thesis
    using True wf pos detect_step_inv [OF inv pos, of "\<bar>x\<bar>" True]
    by (simp add: record_input_def recorder_inv_def Let_def)
qed

lemma recorder_inv_cong:
  assumes "slices b = slices a" "recordedLength b = recordedLength a"
    "isRecording b = isRecording a" "tempSlices b = tempSlices a"
    "tempRecordPosition b = tempRecordPosition a" "tempRecordedLength b = tempRecordedLength a"
    "tempLastAmplitude b = tempLastAmplitude a"
  shows "recorder_inv b = recorder_inv a"
  by (simp add: recorder_inv_def assms)

lemma process_sample_inv:
  assumes "recorder_inv st"
  shows "recorder_inv (fst (process_sample x st))"
proof -
  have "recorder_inv (fst (process_sample x st)) = recorder_inv (record_input x st)"
    by (rule recorder_inv_cong) (simp_all add: process_sample_frame record_input_frame)
  with record_input_inv [OF assms] show ?thesis by simp
qed

lemma process_inv: "recorder_inv st \<Longrightarrow> recorder_inv (fst (process xs st))"
proof (induction xs arbitrary: st)
  case Nil
  then show ?case by (simp add: process.simps)
next
  case (Cons x xs)
  from Cons.IH [OF process_sample_inv [OF Cons.prems]] show ?case
    by (simp only: process_Cons_fst)
qed

lemma rescanSlices_slices:
  "slices (rescanSlices thr t st) =
     (if recordedLength st \<le> 0 then slices st
      else detect_slices (loopBuffer st) (recordedLength st) thr (fl_to_int (t * sampleRate st)))"
  by (simp add: rescanSlices_def detect_slices_def Let_def)

lemma rescanSlices_frame:
  "recordedLength (rescanSlices thr t st) = recordedLength st"
  "isRecording (rescanSlices thr t st) = isRecording st"
  "tempSlices (rescanSlices thr t st) = tempSlices st"
  "tempRecordPosition (rescanSlices thr t st) = tempRecordPosition st"
  "tempRecordedLength (rescanSlices thr t st) = tempRecordedLength st"
  "tempLastAmplitude (rescanSlices thr t st) = tempLastAmplitude st"
  "tempBuffer (rescanSlices thr t st) = tempBuffer st"
  "loopBuffer (rescanSlices thr t st) = loopBuffer st"
  "minSliceTime (rescanSlices thr t st) = minSliceTime st"
  "sampleRate (rescanSlices thr t st) = sampleRate st"
  "numVoices (rescanSlices thr t st) = numVoices st"
  "voices (rescanSlices thr t st) = voices st"
  by (simp_all add: rescanSlices_def Let_def)

lemma rescanSlices_inv:
  assumes "recorder_inv st"
  shows "recorder_inv (rescanSlices thr t st)"
proof (cases "recordedLength st \<le> 0")
  case True
  with assms show ?thesis by (simp add: rescanSlices_def)
next
  case False
  then have n: "recordedLength st = int (nat (recordedLength st))" by simp
  have "slices_wf (recordedLength st)
          (detect_slices (loopBuffer st) (recordedLength st) thr (fl_to_int (t * sampleRate st)))"
    using detect_slices_wf [of "nat (recordedLength st)" "loopBuffer st" thr] n by simp
  with assms False show ?thesis
    by (auto simp: recorder_inv_def rescanSlices_slices rescanSlices_frame split: if_splits)
qed

lemma redistributeVoices_inv: "recorder_inv (redistributeVoices st) = recorder_inv st"
  by (rule recorder_inv_cong) (simp_all add: redistributeVoices_frame)

lemma setRecording_inv:
  assumes "recorder_inv st"
  shows "recorder_inv (setRecording b st)"
proof -
  consider (start) "b" "\<not> isRecording st" | (stop) "\<not> b" "isRecording st"
    | (none) "b = isRecording st" by auto
  then show ?thesis
  proof cases
    case start
    with assms show ?thesis
      by (simp add: setRecording_def recorder_inv_def det_inv_def ordered_slices_def)
  next
    case stop
    with assms have inv: "det_inv (Fin (1 / 2)) (tempRecordedLength st) (tempLastAmplitude st) (tempSlices st)"
      by (simp add: recorder_inv_def)
    show ?thesis
      using stop close_last_wf [OF inv]
      by (simp add: setRecording_def recorder_inv_def Let_def redistributeVoices_frame)
  next
    case none
    then show ?thesis using assms by (auto simp: setRecording_def)
  qed
qed

lemma setMinSliceTime_inv:
  assumes "recorder_inv st"
  shows "recorder_inv (setMinSliceTime t st)"
proof -
  let ?st1 = "st\<lparr>minSliceTime := clamp t (Fin 0) (Fin 1)\<rparr>"
  have 1: "recorder_inv ?st1" using assms by (simp add: recorder_inv_def)
  have 2: "recorder_inv (redistributeVoices (rescanSlices (Fin 0.5) x ?st1))" for x
    using rescanSlices_inv [OF 1] by (simp add: redistributeVoices_inv)
  have 3: "recorder_inv (s\<lparr>lastMinSliceTime := y\<rparr>) = recorder_inv s" for s y
    by (simp add: recorder_inv_def)
  show ?thesis
    using 1 2 by (simp add: setMinSliceTime_def Let_def 3)
qed

lemma apply_op_inv:
  assumes "recorder_inv st"
  shows "recorder_inv (apply_op a st)"
proof (cases a)
  case (SetRecording b)
  with setRecording_inv [OF assms] show ?thesis by simp
next
  case (SetMinSliceTime t)
  with setMinSliceTime_inv [OF assms] show ?thesis by simp
next
  case (SetScan s)
  have "recorder_inv (setScan s st) = recorder_inv st"
    by (rule recorder_inv_cong) (simp_all add: setScan_frame)
  with SetScan assms show ?thesis by simp
next
  case (SetPolyVoices n)
  have "recorder_inv (setPolyVoices n st) = recorder_inv st"
    by (rule recorder_inv_cong) (simp_all add: setPolyVoices_frame)
  with SetPolyVoices assms show ?thesis by simp
next
  case (Process xs)
  with process_inv [OF assms] show ?thesis by simp
next
  case Clear
  then show ?thesis
    by (simp add: clear_def recorder_inv_def slices_wf_def ordered_slices_def)
next
  case (RescanSlices thr t)
  with rescanSlices_inv [OF assms] show ?thesis by simp
next
  case RedistributeVoices
  with assms show ?thesis by (simp add: redistributeVoices_inv)
qed (use assms in \<open>simp_all add: recorder_inv_def setLooping_def setFeedback_def setMix_def
      setSpeed_def setEQLow_def setEQMid_def setEQHigh_def setDelayTime_def
      setDelayFeedback_def setDelayWet_def setReverbRoom_def setReverbDamping_def
      setReverbDecay_def setReverbWet_def\<close>)

lemma init_inv: "recorder_inv (Alien4AudioEngine sr seed)"
  by (simp add: Alien4AudioEngine_def recorder_inv_def slices_wf_def ordered_slices_def)

lemma run_inv: "recorder_inv st \<Longrightarrow> recorder_inv (run ops st)"
  unfolding run_def
  by (induction ops arbitrary: st) (simp_all add: apply_op_inv)

lemma reachable_inv: "recorder_inv (run ops (Alien4AudioEngine sr seed))"
  by (rule run_inv [OF init_inv])

subsection \<open>Ordering of the slice list\<close>

lemma detect_slices_nonpos: "len \<le> 0 \<Longrightarrow> detect_slices buf len thr m = []"
  by (simp add: detect_slices_def rescan_loop_def close_last_def)

lemma detect_slices_wf_int: "slices_wf len (detect_slices buf len thr m)"
proof (cases "len \<le> 0")
  case True
  then show ?thesis by (simp add: detect_slices_nonpos slices_wf_def ordered_slices_def)
next
  case False
  then have "len = int (nat len)" by simp
  then show ?thesis using detect_slices_wf [of "nat len" buf thr m] by simp
qed

lemma slices_wf_ascending: "slices_wf n sl \<Longrightarrow> ascending_starts sl \<and> ordered_slices sl"
  by (auto simp: slices_wf_def intro: ordered_imp_ascending)

text \<open>
  Claim C5. For every buffer, length, threshold and minimum length, the list that the
  batch rescan computes has strictly ascending \<open>startSample\<close> and every slice ends
  before the next one starts. The same holds of the committed list in every state that
  any sequence of public operations reaches from a new engine, which covers the lists
  built incrementally while recording and committed by \<^verbatim>\<open>setRecording(false)\<close>.
\<close>

theorem slice_list_ordered_disjoint:
  "ascending_starts (detect_slices buf len thr m) \<and>
   ordered_slices (detect_slices buf len thr m) \<and>
   ascending_starts (slices (run ops (Alien4AudioEngine sr seed))) \<and>
   ordered_slices (slices (run ops (Alien4AudioEngine sr seed)))"
proof -
  have "slices_wf (recordedLength (run ops (Alien4AudioEngine sr seed)))
          (slices (run ops (Alien4AudioEngine sr seed)))"
    using reachable_inv [of ops sr seed] by (simp add: recorder_inv_def)
  then show ?thesis
    using detect_slices_wf_int [of len buf thr m] by (blast dest: slices_wf_ascending)
qed

subsection \<open>Silence\<close>

lemma slices_wf_empty: "slices_wf n sl \<Longrightarrow> n \<le> 0 \<Longrightarrow> sl = []"
  by (cases sl) (auto simp: slices_wf_def committed_ok_def)

text \<open>
  Claim C7. Let the engine be in any state that public operations reach from a new
  engine, with a committed buffer of any length whose samples are all zero, and let the
  threshold be greater than 0. Then the detector finds no slice and \<^verbatim>\<open>rescanSlices\<close>
  leaves the slice list empty. (For a recorded length of 0 \<^verbatim>\<open>rescanSlices\<close> returns
  at once; the list is empty then because every reachable state with no recording has
  no slices.)
\<close>

theorem silence_gives_no_slices:
  assumes thr: "Fin 0 < thr"
    and st: "st = run ops (Alien4AudioEngine sr seed)"
    and zero: "\<forall>i. int i < recordedLength st \<longrightarrow> loopBuffer st i = Fin 0"
  shows "detect_slices (loopBuffer st) (recordedLength st) thr m = [] \<and>
         slices (rescanSlices thr t st) = []"
proof (cases "recordedLength st \<le> 0")
  case True
  have "slices_wf (recordedLength st) (slices st)"
    unfolding st using reachable_inv [of ops sr seed] by (simp add: recorder_inv_def)
  with True have "slices st = []" by (rule slices_wf_empty [rotated])
  with True show ?thesis by (simp add: rescanSlices_def detect_slices_nonpos)
next
  case False
  then have n: "recordedLength st = int (nat (recordedLength st))" by simp
  have z: "\<forall>i<nat (recordedLength st). loopBuffer st i = Fin 0"
    using zero by auto
  have "detect_slices (loopBuffer st) (int (nat (recordedLength st))) thr k = []" for k
    by (rule detect_slices_silent [OF thr z])
  with n have "detect_slices (loopBuffer st) (recordedLength st) thr k = []" for k by simp
  with False show ?thesis by (simp add: rescanSlices_slices)
qed

subsection \<open>Following a recording\<close>

lemma recorder_of_record_input:
  "recorder_of (record_input x st) = recorder_step x (recorder_of st)"
  by (simp add: recorder_of_def recorder_step_def record_input_def Let_def)

lemma recorder_of_process_sample:
  "recorder_of (fst (process_sample x st)) = recorder_step x (recorder_of st)"
proof -
  have "recorder_of (fst (process_sample x st)) = recorder_of (record_input x st)"
    by (simp add: recorder_of_def process_sample_frame record_input_frame)
  then show ?thesis by (simp add: recorder_of_record_input)
qed

lemma recorder_of_process:
  "recorder_of (fst (process xs st)) = fold recorder_step xs (recorder_of st)"
proof (induction xs arbitrary: st)
  case Nil
  show ?case by (simp add: process.simps)
next
  case (Cons x xs)
  show ?case
    by (simp only: process_Cons_fst Cons.IH recorder_of_process_sample fold_simps)
qed

lemma process_frame:
  "slices (fst (process xs st)) = slices st \<and>
   recordedLength (fst (process xs st)) = recordedLength st \<and>
   loopBuffer (fst (process xs st)) = loopBuffer st \<and>
   minSliceTime (fst (process xs st)) = minSliceTime st \<and>
   sampleRate (fst (process xs st)) = sampleRate st \<and>
   isRecording (fst (process xs st)) = isRecording st \<and>
   numVoices (fst (process xs st)) = numVoices st"
proof (induction xs arbitrary: st)
  case Nil
  show ?case by (simp add: process.simps)
next
  case (Cons x xs)
  show ?case
    by (simp only: process_Cons_fst Cons.IH process_sample_frame)
qed

lemma setRecording_stop:
  assumes "isRecording st"
  shows "slices (setRecording False st)
           = close_last (rc_length (recorder_of st)) (rc_minSamples (recorder_of st))
               (rc_slices (recorder_of st))"
    and "recordedLength (setRecording False st) = rc_length (recorder_of st)"
    and "loopBuffer (setRecording False st) = rc_buffer (recorder_of st)"
    and "sampleRate (setRecording False st) = sampleRate st"
    and "minSliceTime (setRecording False st) = minSliceTime st"
    and "currentSliceIndex (setRecording False st) = 0"
    and "isRecording (setRecording False st) = False"
  using assms
  by (simp_all add: setRecording_def recorder_of_def Let_def redistributeVoices_frame)

lemma setRecording_start:
  assumes "\<not> isRecording st"
  shows "recorder_of (setRecording True st)
           = \<lparr>rc_recording = True, rc_position = 0, rc_length = 0, rc_lastAmp = Fin 0,
              rc_slices = [], rc_buffer = (\<lambda>i. Fin 0),
              rc_minSamples = fl_to_int (getMinSliceTime (minSliceTime st) * sampleRate st)\<rparr>"
    and "isRecording (setRecording True st)"
    and "slices (setRecording True st) = slices st"
    and "sampleRate (setRecording True st) = sampleRate st"
    and "minSliceTime (setRecording True st) = minSliceTime st"
  using assms by (simp_all add: setRecording_def recorder_of_def)

lemma getMinSliceTime_0: "getMinSliceTime (Fin 0) = Fin (1 / 1000)"
  by (simp add: getMinSliceTime_def fl_arith)


lemma clamp_unit_0: "clamp (Fin 0) (Fin 0) (Fin 1) = Fin 0"
  by (simp add: clamp_def std_min_def std_max_def fl_arith)

lemma clamp_unit_1: "clamp (Fin 1) (Fin 0) (Fin 1) = Fin 1"
  by (simp add: clamp_def std_min_def std_max_def fl_arith)

subsection \<open>The example recordings\<close>

lemma short_recording_state:
  fixes s3 :: engine
  defines "s3 \<equiv> fst (process [Fin 1, Fin 0, Fin 1, Fin 0]
                     (setRecording True (setMinSliceTime (Fin 0) (Alien4AudioEngine (Fin 1000) seed0))))"
  shows "rc_slices (recorder_of s3) =
           [\<lparr>startSample = 0, endSample = 1, peakAmplitude = Fin 1, active = True\<rparr>,
            \<lparr>startSample = 2, endSample = 0, peakAmplitude = Fin 1, active = True\<rparr>]"
    and "rc_length (recorder_of s3) = 4"
    and "rc_minSamples (recorder_of s3) = 1"
    and "isRecording s3"
    and "sampleRate s3 = Fin 1000"
    and "minSliceTime s3 = Fin 0"
    and "recordedLength s3 = 0"
proof -
  define s1 where "s1 = setMinSliceTime (Fin 0) (Alien4AudioEngine (Fin 1000) seed0)"
  define s2 where "s2 = setRecording True s1"
  have s3: "s3 = fst (process [Fin 1, Fin 0, Fin 1, Fin 0] s2)"
    by (simp only: s3_def s2_def s1_def)
  have 1: "minSliceTime s1 = Fin 0" "sampleRate s1 = Fin 1000" "\<not> isRecording s1"
    "recordedLength s1 = 0"
    by (simp_all add: s1_def setMinSliceTime_def Alien4AudioEngine_def Let_def clamp_unit_0)
  have 2: "recorder_of s2 = \<lparr>rc_recording = True, rc_position = 0, rc_length = 0,
              rc_lastAmp = Fin 0, rc_slices = [], rc_buffer = (\<lambda>i. Fin 0), rc_minSamples = 1\<rparr>"
    unfolding s2_def by (simp add: setRecording_start 1 getMinSliceTime_0 fl_arith)
  have f2: "isRecording s2" "sampleRate s2 = Fin 1000" "minSliceTime s2 = Fin 0"
    "recordedLength s2 = 0"
    using 1 by (simp_all add: s2_def setRecording_start setRecording_def)
  show "rc_slices (recorder_of s3) =
           [\<lparr>startSample = 0, endSample = 1, peakAmplitude = Fin 1, active = True\<rparr>,
            \<lparr>startSample = 2, endSample = 0, peakAmplitude = Fin 1, active = True\<rparr>]"
    and "rc_length (recorder_of s3) = 4"
    and "rc_minSamples (recorder_of s3) = 1"
    unfolding s3 recorder_of_process 2
    by (simp_all add: recorder_step_def detect_step_def upd_back_def newSlice_def
        LOOP_BUFFER_SIZE_def std_max_def fl_arith Let_def)
  show "isRecording s3" "sampleRate s3 = Fin 1000" "minSliceTime s3 = Fin 0"
    "recordedLength s3 = 0"
    unfolding s3 using process_frame [of "[Fin 1, Fin 0, Fin 1, Fin 0]" s2] f2 by simp_all
qed

lemma short_recording_result:
  "slices (run short_recording (Alien4AudioEngine (Fin 1000) seed0)) =
     [\<lparr>startSample = 0, endSample = 1, peakAmplitude = Fin 1, active = True\<rparr>,
      \<lparr>startSample = 2, endSample = 3, peakAmplitude = Fin 1, active = True\<rparr>]"
proof -
  have r: "run short_recording (Alien4AudioEngine (Fin 1000) seed0)
             = setRecording False (fst (process [Fin 1, Fin 0, Fin 1, Fin 0]
                     (setRecording True (setMinSliceTime (Fin 0) (Alien4AudioEngine (Fin 1000) seed0)))))"
    by (simp only: run_def short_recording_def fold_simps apply_op.simps)
  show ?thesis
    unfolding r
    by (simp add: setRecording_stop short_recording_state close_last_def upd_back_def)
qed

text \<open>A closed instance of the ordering theorem, on the short recording.\<close>

theorem slice_list_ordered_disjoint_witness:
  "ascending_starts (slices (run short_recording (Alien4AudioEngine (Fin 1000) seed0))) \<and>
   ordered_slices (slices (run short_recording (Alien4AudioEngine (Fin 1000) seed0))) \<and>
   length (slices (run short_recording (Alien4AudioEngine (Fin 1000) seed0))) = 2"
  using slice_list_ordered_disjoint [of pulse_buffer 1000 "Fin 0.5" 10 short_recording "Fin 1000" seed0]
  by (simp add: short_recording_result)

lemma silent_recording_state:
  fixes st :: engine
  defines "st \<equiv> run silent_recording (Alien4AudioEngine (Fin 48000) seed0)"
  shows "recordedLength st = 3" and "loopBuffer st i = Fin 0"
proof -
  define s1 where "s1 = setRecording True (Alien4AudioEngine (Fin 48000) seed0)"
  define s2 where "s2 = fst (process [Fin 0, Fin 0, Fin 0] s1)"
  have st: "st = setRecording False s2"
    by (simp only: st_def run_def silent_recording_def fold_simps apply_op.simps s2_def s1_def)
  have 1: "recorder_of s1 = \<lparr>rc_recording = True, rc_position = 0, rc_length = 0,
              rc_lastAmp = Fin 0, rc_slices = [], rc_buffer = (\<lambda>i. Fin 0),
              rc_minSamples = fl_to_int (getMinSliceTime (Fin 0.05) * Fin 48000)\<rparr>"
    and rec1: "isRecording s1"
    unfolding s1_def by (simp_all add: setRecording_start Alien4AudioEngine_def)
  have 2: "rc_length (recorder_of s2) = 3" "rc_buffer (recorder_of s2) i = Fin 0"
    unfolding s2_def recorder_of_process 1
    by (simp_all add: recorder_step_def LOOP_BUFFER_SIZE_def)
  have rec2: "isRecording s2"
    unfolding s2_def using process_frame [of "[Fin 0, Fin 0, Fin 0]" s1] rec1 by simp
  show "recordedLength st = 3" and "loopBuffer st i = Fin 0"
    unfolding st by (simp_all add: setRecording_stop [OF rec2] 2)
qed

theorem silence_gives_no_slices_witness:
  "slices (rescanSlices (Fin 0.5) (Fin 0.001)
             (run silent_recording (Alien4AudioEngine (Fin 48000) seed0))) = []"
proof -
  have thr: "Fin 0 < Fin 0.5" by (simp add: fl_arith)
  show ?thesis
    using silence_gives_no_slices [OF thr refl, of silent_recording "Fin 48000" seed0 0 "Fin 0.001"]
    by (simp add: silent_recording_state)
qed

subsection \<open>Minimum slice length\<close>






















subsection \<open>A single pulse\<close>

lemma half_positive: "Fin 0 < Fin (1 / 2)"
  by (simp add: fl_arith)

lemma pulse_scan:
  assumes buf: "\<forall>i<1000. buf i = pulse_buffer i"
    and n: "101 \<le> n" "n \<le> 1000"
  shows "rescan_loop buf (int n) (Fin (1 / 2)) m =
           ([\<lparr>startSample = 100, endSample = 0, peakAmplitude = Fin 1, active = True\<rparr>],
            \<bar>buf (n - 1)\<bar>)"
  using n
proof (induction n rule: dec_induct)
  case base
  have z: "\<forall>i<100. buf i = Fin 0" using buf by (simp add: pulse_buffer_def)
  have "rescan_loop buf (int 100) (Fin (1 / 2)) m = ([], Fin 0)"
    by (rule rescan_loop_silent [OF half_positive z])
  moreover have "buf 100 = Fin 1" using buf by (simp add: pulse_buffer_def)
  moreover have "(101::nat) = Suc 100" by simp
  ultimately show ?case
    by (simp only: rescan_loop_Suc)
      (simp add: rescan_step_def detect_step_def upd_back_def newSlice_def std_max_def fl_arith
        Let_def)
next
  case (step n)
  then have ih: "rescan_loop buf (int n) (Fin (1 / 2)) m =
           ([\<lparr>startSample = 100, endSample = 0, peakAmplitude = Fin 1, active = True\<rparr>],
            \<bar>buf (n - 1)\<bar>)" and n: "101 \<le> n" "n < 1000" by simp_all
  have bn: "buf n = pulse_buffer n" and bp: "buf (n - 1) = pulse_buffer (n - 1)"
    using buf n by simp_all
  have nc: "\<not> (\<bar>buf (n - 1)\<bar> < Fin (1 / 2) \<and> Fin (1 / 2) \<le> \<bar>buf n\<bar>)"
    using n bn bp by (auto simp: pulse_buffer_def fl_arith split: if_splits)
  have pk: "std_max (Fin 1) \<bar>buf n\<bar> = Fin 1"
    by (simp add: bn pulse_buffer_def std_max_def fl_arith)
  have "detect_step False (Fin (1 / 2)) m (int n) \<bar>buf n\<bar> \<bar>buf (n - 1)\<bar>
          [\<lparr>startSample = 100, endSample = 0, peakAmplitude = Fin 1, active = True\<rparr>]
        = [\<lparr>startSample = 100, endSample = 0, peakAmplitude = Fin 1, active = True\<rparr>]"
    using nc by (auto simp: detect_step_def upd_back_def pk Let_def)
  then show ?case
    by (simp only: rescan_loop_Suc ih) (simp add: rescan_step_def Let_def)
qed

lemma pulse_detect:
  assumes buf: "\<forall>i<1000. buf i = pulse_buffer i"
  shows "detect_slices buf 1000 (Fin (1 / 2)) 10 =
           [\<lparr>startSample = 100, endSample = 999, peakAmplitude = Fin 1, active = True\<rparr>]"
proof -
  have "rescan_loop buf (int 1000) (Fin (1 / 2)) 10 =
           ([\<lparr>startSample = 100, endSample = 0, peakAmplitude = Fin 1, active = True\<rparr>],
            \<bar>buf (1000 - 1)\<bar>)"
    by (rule pulse_scan [OF buf]) simp_all
  then show ?thesis
    by (simp add: detect_slices_def close_last_def upd_back_def)
qed

text \<open>
  Claim C2, amended. On a committed buffer of length 1000 that is zero except for
  samples 100..199, which are 1.0, \<^verbatim>\<open>rescanSlices\<close> with threshold 0.5 and a minimum
  of 10 samples produces exactly one slice, with \<open>startSample = 100\<close> and
  \<open>endSample = 999\<close>: a slice runs from its onset to the sample before the next
  onset, or to the end of the recording when no onset follows.
\<close>

theorem single_pulse_slice:
  assumes "recordedLength st = 1000"
    and "\<forall>i<1000. loopBuffer st i = pulse_buffer i"
    and "fl_to_int (t * sampleRate st) = 10"
  shows "slices (rescanSlices (Fin 0.5) t st) =
           [\<lparr>startSample = 100, endSample = 999, peakAmplitude = Fin 1, active = True\<rparr>]"
  using assms(1,3) pulse_detect [OF assms(2)]
  by (simp add: rescanSlices_slices)

lemma pulse_engine_state:
  "recordedLength pulse_engine = 1000" "loopBuffer pulse_engine i = pulse_buffer i"
  "fl_to_int (Fin 0.00021 * sampleRate pulse_engine) = 10"
proof -
  show "recordedLength pulse_engine = 1000" "loopBuffer pulse_engine i = pulse_buffer i"
    by (simp_all add: pulse_engine_def Alien4AudioEngine_def)
  have "\<lfloor>(1008::real) / 100\<rfloor> = 10" by linarith
  then show "fl_to_int (Fin 0.00021 * sampleRate pulse_engine) = 10"
    by (simp add: pulse_engine_def Alien4AudioEngine_def fl_arith)
qed

theorem single_pulse_slice_witness:
  "slices (rescanSlices (Fin 0.5) (Fin 0.00021) pulse_engine) =
     [\<lparr>startSample = 100, endSample = 999, peakAmplitude = Fin 1, active = True\<rparr>]"
  using single_pulse_slice [of pulse_engine "Fin 0.00021"] pulse_engine_state
  by simp

text \<open>
  Claim C2 as stated fails on that engine (48 kHz, minimum time 0.21 ms, that is 10
  samples): the one slice found ends at sample 999, not at 199.
\<close>

theorem single_pulse_slice_counterexample:
  "length (slices (rescanSlices (Fin 0.5) (Fin 0.00021) pulse_engine)) = 1 \<and>
   startSample (hd (slices (rescanSlices (Fin 0.5) (Fin 0.00021) pulse_engine))) = 100 \<and>
   endSample (hd (slices (rescanSlices (Fin 0.5) (Fin 0.00021) pulse_engine))) = 999 \<and>
   endSample (hd (slices (rescanSlices (Fin 0.5) (Fin 0.00021) pulse_engine))) \<noteq> 199"
proof -
  have "\<forall>i<1000. loopBuffer pulse_engine i = pulse_buffer i"
    by (simp add: pulse_engine_state)
  from pulse_detect [OF this] pulse_engine_state(1,3) show ?thesis
    by (simp add: rescanSlices_slices)
qed

subsection \<open>Non-finite samples in playback\<close>

lemma record_input_params:
  "speed (record_input x st) = speed st"
  "scanValue (record_input x st) = scanValue st"
  "playbackPosition (record_input x st) = playbackPosition st"
  "playbackPhase (record_input x st) = playbackPhase st"
  "lastScanTargetIndex (record_input x st) = lastScanTargetIndex st"
  "randomEngine (record_input x st) = randomEngine st"
  by (simp_all add: record_input_def Let_def)

lemma scan_update_params:
  "speed (scan_update st) = speed st"
  "scanValue (scan_update st) = scanValue st"
  "randomEngine (scan_update st) = randomEngine st"
  by (simp_all add: scan_update_def Let_def)

lemma playback_params:
  "speed (fst (playback st)) = speed st"
  "scanValue (fst (playback st)) = scanValue st"
  "lastScanTargetIndex (fst (playback st)) = lastScanTargetIndex st"
  "randomEngine (fst (playback st)) = randomEngine st"
  by (simp_all add: playback_def Let_def split_def)

lemma process_sample_params:
  "speed (fst (process_sample x st)) = speed st"
  "scanValue (fst (process_sample x st)) = scanValue st"
  "randomEngine (fst (process_sample x st)) = randomEngine st"
  by (simp_all add: process_sample_fst effects_frame playback_params scan_update_params
      record_input_params)

lemma process_params:
  "speed (fst (process xs st)) = speed st \<and> scanValue (fst (process xs st)) = scanValue st \<and>
   randomEngine (fst (process xs st)) = randomEngine st"
proof (induction xs arbitrary: st)
  case Nil
  show ?case by (simp add: process.simps)
next
  case (Cons x xs)
  show ?case
    by (simp only: process_Cons_fst Cons.IH process_sample_params)
qed

lemma setRecording_stop_single:
  assumes "isRecording st" and "numVoices st \<le> 1"
  shows "setRecording False st =
     st\<lparr>tempSlices := close_last (tempRecordedLength st)
                        (fl_to_int (getMinSliceTime (minSliceTime st) * sampleRate st))
                        (tempSlices st),
        loopBuffer := tempBuffer st,
        slices := close_last (tempRecordedLength st)
                    (fl_to_int (getMinSliceTime (minSliceTime st) * sampleRate st))
                    (tempSlices st),
        recordedLength := tempRecordedLength st, playbackPosition := 0,
        playbackPhase := Fin 0, currentSliceIndex := 0, lastAmplitude := Fin 0,
        voices := map reset_voice (voices st), isRecording := False\<rparr>"
  using assms by (simp add: setRecording_def Let_def)

lemma default_min_samples: "1 < fl_to_int (getMinSliceTime (Fin 0.05) * Fin 48000)"
proof -
  have lo: "(1::real) \<le> 1000 powr (1 / 10)"
    by (rule ge_one_powr_ge_zero) simp_all
  have "(1000::real) powr (1 / 10) \<le> 1000 powr 1"
    by (rule powr_mono) simp_all
  then have hi: "(1000::real) powr (1 / 10) \<le> 1000" by simp
  from lo have "(2::real) \<le> 48 * 1000 powr (1 / 10)" by linarith
  then have "(2::int) \<le> \<lfloor>48 * 1000 powr (1 / 10 :: real)\<rfloor>" by (simp add: le_floor_iff)
  with lo hi show ?thesis
    by (simp add: getMinSliceTime_def fl_arith)
qed

lemma inf_recording_state:
  fixes st :: engine
  defines "st \<equiv> run inf_recording (Alien4AudioEngine (Fin 48000) seed0)"
  shows "recordedLength st = 1" "loopBuffer st 0 = PInf" "slices st = []"
    "numVoices st = 1" "speed st = Fin 1" "playbackPhase st = Fin 0"
    "playbackPosition st = 0" "currentSliceIndex st = 0" "\<not> isRecording st"
proof -
  define m where "m = fl_to_int (getMinSliceTime (Fin 0.05) * Fin 48000)"
  define s1 where "s1 = setRecording True (Alien4AudioEngine (Fin 48000) seed0)"
  define s2 where "s2 = fst (process [PInf] s1)"
  have st: "st = setRecording False s2"
    by (simp only: st_def run_def inf_recording_def fold_simps apply_op.simps s2_def s1_def)
  have m: "1 < m" unfolding m_def by (rule default_min_samples)
  have idle: "\<not> isRecording (Alien4AudioEngine (Fin 48000) seed0)"
    and par: "minSliceTime (Alien4AudioEngine (Fin 48000) seed0) = Fin 0.05"
      "sampleRate (Alien4AudioEngine (Fin 48000) seed0) = Fin 48000"
    by (simp_all add: Alien4AudioEngine_def)
  have 1: "recorder_of s1 = \<lparr>rc_recording = True, rc_position = 0, rc_length = 0,
              rc_lastAmp = Fin 0, rc_slices = [], rc_buffer = (\<lambda>i. Fin 0),
              rc_minSamples = m\<rparr>"
    unfolding s1_def m_def setRecording_start(1) [OF idle] par ..
  have f1: "isRecording s1" "numVoices s1 = 1" "speed s1 = Fin 1"
    unfolding s1_def
    by (simp_all add: setRecording_def Alien4AudioEngine_def)
  have r2: "recorder_of s2 = \<lparr>rc_recording = True, rc_position = 1, rc_length = 1,
              rc_lastAmp = PInf,
              rc_slices = [\<lparr>startSample = 0, endSample = 0, peakAmplitude = PInf, active = True\<rparr>],
              rc_buffer = (\<lambda>i. Fin 0)(0 := PInf), rc_minSamples = m\<rparr>"
    unfolding s2_def recorder_of_process 1
    by (simp add: recorder_step_def LOOP_BUFFER_SIZE_def detect_step_def upd_back_def
        newSlice_def std_max_def fl_arith Let_def)
  have f2: "isRecording s2" "numVoices s2 = 1" "speed s2 = Fin 1"
    unfolding s2_def using process_frame [of "[PInf]" s1] process_params [of "[PInf]" s1] f1
    by simp_all
  have t2: "tempSlices s2 = [\<lparr>startSample = 0, endSample = 0, peakAmplitude = PInf, active = True\<rparr>]"
    "tempRecordedLength s2 = 1" "tempBuffer s2 = (\<lambda>i. Fin 0)(0 := PInf)"
    "fl_to_int (getMinSliceTime (minSliceTime s2) * sampleRate s2) = m"
    using r2 by (simp_all add: recorder_of_def)
  have st_eq: "st = s2\<lparr>tempSlices := [], loopBuffer := (\<lambda>i. Fin 0)(0 := PInf), slices := [],
        recordedLength := 1, playbackPosition := 0,
        playbackPhase := Fin 0, currentSliceIndex := 0, lastAmplitude := Fin 0,
        voices := map reset_voice (voices s2), isRecording := False\<rparr>"
    unfolding st using m
    by (simp add: setRecording_stop_single f2 t2 close_last_def)
  show "recordedLength st = 1" "loopBuffer st 0 = PInf" "slices st = []"
    "numVoices st = 1" "speed st = Fin 1" "playbackPhase st = Fin 0"
    "playbackPosition st = 0" "currentSliceIndex st = 0" "\<not> isRecording st"
    by (simp_all add: st_eq f2)
qed

text \<open>
  Claim C4 at a failing input. A 48 kHz engine with one voice records the single sample
  \<open>+inf\<close> and stops. In the next render call the recording and scan branches do
  nothing, the single-voice path reads \<open>inf * 1 + inf * 0\<close>, which is NaN, and
  returns it as \<open>loopL\<close> and \<open>loopR\<close>: the non-finite sample is not replaced by 0.
\<close>

theorem single_voice_keeps_nonfinite_sample:
  "numVoices (run inf_recording (Alien4AudioEngine (Fin 48000) seed0)) = 1 \<and>
   scan_update (record_input (Fin 0) (run inf_recording (Alien4AudioEngine (Fin 48000) seed0)))
     = run inf_recording (Alien4AudioEngine (Fin 48000) seed0) \<and>
   snd (playback (run inf_recording (Alien4AudioEngine (Fin 48000) seed0))) = (NaN, NaN)"
proof -
  define st where "st = run inf_recording (Alien4AudioEngine (Fin 48000) seed0)"
  note f = inf_recording_state [folded st_def]
  have a: "scan_update (record_input (Fin 0) st) = st"
    using f by (simp add: record_input_def scan_update_def)
  have b: "snd (playback st) = (NaN, NaN)"
    using f
    by (simp add: playback_def Let_def wrap_position_def read_interp_def clamp_int_def
        clamp_def std_min_def std_max_def fl_of_int_def fl_arith inf_of_sign_def
        LOOP_BUFFER_SIZE_def)
  show ?thesis
    unfolding st_def [symmetric] using f(4) a b by simp
qed

text \<open>
  The multi-voice path does skip a sample that is not finite: a voice adds a finite
  sample to one of the two sums, or nothing.
\<close>

lemma voice_step_contribution:
  assumes "voice_step sl buf recLen spd v (vs, loopL, loopR) = (vs', loopL', loopR')"
  shows "(loopL' = loopL \<and> loopR' = loopR) \<or>
         (\<exists>s. isfinite s \<and> ((loopL' = loopL + s \<and> loopR' = loopR) \<or>
                              (loopL' = loopL \<and> loopR' = loopR + s)))"
  using assms by (auto simp: voice_step_def Let_def split_def split: if_splits)

subsection \<open>Voices and the current slice index\<close>

lemma fold_update_length:
  assumes "\<And>i p. length (fst (f i p)) = length (fst p)"
  shows "length (fst (fold f is p)) = length (fst p)"
  by (induction "is" arbitrary: p) (simp_all add: assms)

lemma fold_update_other:
  assumes "\<And>i p. i \<noteq> j \<Longrightarrow> fst (f i p) ! j = fst p ! j"
    and "j \<notin> set is"
  shows "fst (fold f is p) ! j = fst p ! j"
  using assms(2) by (induction "is" arbitrary: p) (simp_all add: assms(1))

lemma redistribute_voice_length:
  "length (fst (redistribute_voice sl n i p)) = length (fst p)"
  by (cases p) (simp add: redistribute_voice_def Let_def split_def)

lemma redistribute_voice_other:
  "i \<noteq> j \<Longrightarrow> fst (redistribute_voice sl n i p) ! j = fst p ! j"
  by (cases p) (simp add: redistribute_voice_def Let_def split_def)

lemma redistributeVoices_voices:
  "length (voices (redistributeVoices st)) = length (voices st)"
  "voices (redistributeVoices st) ! 0 = voices st ! 0"
proof -
  show "length (voices (redistributeVoices st)) = length (voices st)"
    by (simp add: redistributeVoices_def split_def Let_def
        fold_update_length [of "redistribute_voice (slices st) (recordedLength st)",
          OF redistribute_voice_length])
  have "fst (fold (redistribute_voice (slices st) (recordedLength st))
               [1..<nat (numVoices st)] (voices st, randomEngine st)) ! 0 = voices st ! 0"
    using fold_update_other [of 0 "redistribute_voice (slices st) (recordedLength st)"
        "[1..<nat (numVoices st)]" "(voices st, randomEngine st)"]
    by (simp add: redistribute_voice_other)
  then show "voices (redistributeVoices st) ! 0 = voices st ! 0"
    by (simp add: redistributeVoices_def split_def Let_def)
qed

lemma poly_voice_length: "length (fst (poly_voice st i p)) = length (fst p)"
  by (cases p) (simp add: poly_voice_def Let_def split_def)

lemma poly_voice_other: "i \<noteq> j \<Longrightarrow> fst (poly_voice st i p) ! j = fst p ! j"
  by (cases p) (simp add: poly_voice_def Let_def split_def)

lemma poly_fold_length:
  "length (fst (fold (poly_voice st) is p)) = length (fst p)"
  by (rule fold_update_length [of "poly_voice st", OF poly_voice_length])

lemma poly_fold_first:
  assumes "0 < n" and "0 < length vs"
  shows "sliceIndex (fst (fold (poly_voice st) [0..<n] (vs, r)) ! 0) = currentSliceIndex st"
proof -
  have split: "[0..<n] = 0 # [1..<n]" using assms(1) by (simp add: upt_conv_Cons)
  have "fst (fold (poly_voice st) [1..<n] (poly_voice st 0 (vs, r))) ! 0
          = fst (poly_voice st 0 (vs, r)) ! 0"
    by (rule fold_update_other [of 0 "poly_voice st"]) (simp_all add: poly_voice_other)
  then show ?thesis
    using assms(2) by (simp add: split poly_voice_def)
qed

lemma resize_voices_length: "length (resize_voices n vs) = n"
  by (simp add: resize_voices_def)

lemma setPolyVoices_grow:
  assumes "clamp_int n 1 8 \<noteq> numVoices st" and "slices st \<noteq> []" and "1 < clamp_int n 1 8"
  shows "numVoices (setPolyVoices n st) = clamp_int n 1 8"
    and "length (voices (setPolyVoices n st)) = nat (clamp_int n 1 8)"
    and "sliceIndex (voices (setPolyVoices n st) ! 0) = currentSliceIndex st"
    and "voices (setPolyVoices n st) =
           fst (fold (poly_voice (st\<lparr>numVoices := clamp_int n 1 8,
                                      voices := resize_voices (nat (clamp_int n 1 8)) (voices st)\<rparr>))
                 [0..<nat (clamp_int n 1 8)]
                 (resize_voices (nat (clamp_int n 1 8)) (voices st), randomEngine st))"
proof -
  let ?k = "clamp_int n 1 8"
  let ?st1 = "st\<lparr>numVoices := ?k, voices := resize_voices (nat ?k) (voices st)\<rparr>"
  let ?p = "fold (poly_voice ?st1) [0..<nat ?k] (resize_voices (nat ?k) (voices st), randomEngine st)"
  have eq: "setPolyVoices n st = ?st1\<lparr>voices := fst ?p, randomEngine := snd ?p\<rparr>"
    using assms by (simp add: setPolyVoices_def Let_def split_def)
  show "numVoices (setPolyVoices n st) = ?k" by (simp add: eq)
  show "length (voices (setPolyVoices n st)) = nat ?k"
    by (simp add: eq poly_fold_length resize_voices_length)
  show "sliceIndex (voices (setPolyVoices n st) ! 0) = currentSliceIndex st"
    using assms(3) poly_fold_first [of "nat ?k" "resize_voices (nat ?k) (voices st)" ?st1 "randomEngine st"]
    by (simp add: eq resize_voices_length)
  show "voices (setPolyVoices n st) = fst ?p" by (simp add: eq)
qed

lemma setPolyVoices_single:
  assumes "numVoices st \<noteq> 1" and "n \<le> 1"
  shows "numVoices (setPolyVoices n st) = 1"
    and "length (voices (setPolyVoices n st)) = 1"
    and "sliceIndex (voices (setPolyVoices n st) ! 0) = currentSliceIndex st"
  using assms
  by (simp_all add: setPolyVoices_def clamp_int_def Let_def resize_voices_length inherit_voice_def)

lemma map_update_same: "(map f a)[v := f (a ! v)] = map f a"
proof (cases "v < length a")
  case True
  then show ?thesis by (simp add: list_update_same_conv)
next
  case False
  then show ?thesis by (simp add: list_update_beyond not_less)
qed

lemma voice_step_indices:
  "map sliceIndex (fst (voice_step sl buf n spd v p)) = map sliceIndex (fst p)"
  by (cases p) (simp add: voice_step_def Let_def split_def map_update map_update_same)

lemma voice_fold_indices:
  "map sliceIndex (fst (fold (voice_step sl buf n spd) is p)) = map sliceIndex (fst p)"
  by (induction "is" arbitrary: p) (simp_all add: voice_step_indices)

lemma playback_voices:
  "map sliceIndex (voices (fst (playback st))) = map sliceIndex (voices st)"
proof -
  define p where "p = fold (voice_step (slices st) (loopBuffer st) (recordedLength st) (speed st))
              [0..<nat (numVoices st)] (voices st, Fin 0, Fin 0)"
  have m: "map sliceIndex (fst p) = map sliceIndex (voices st)"
    by (simp add: p_def voice_fold_indices)
  have "voices (fst (playback st)) =
          (if 0 < recordedLength st \<and> \<not> (numVoices st = 1 \<or> voices st = [])
           then fst p else voices st)"
    unfolding p_def by (simp add: playback_def Let_def split_def)
  with m show ?thesis by simp
qed

lemma playback_current:
  "currentSliceIndex (fst (playback st)) =
     (if 0 < recordedLength st \<and> numVoices st \<noteq> 1 \<and> voices st \<noteq> []
      then sliceIndex (voices st ! 0) else currentSliceIndex st)"
proof (cases "0 < recordedLength st \<and> numVoices st \<noteq> 1 \<and> voices st \<noteq> []")
  case False
  then show ?thesis by (auto simp: playback_def Let_def split_def)
next
  case True
  define p where "p = fold (voice_step (slices st) (loopBuffer st) (recordedLength st) (speed st))
              [0..<nat (numVoices st)] (voices st, Fin 0, Fin 0)"
  have m: "map sliceIndex (fst p) = map sliceIndex (voices st)"
    by (simp add: p_def voice_fold_indices)
  then have len: "length (fst p) = length (voices st)" by (metis length_map)
  with True have ne: "fst p \<noteq> []" by auto
  have "sliceIndex (fst p ! 0) = sliceIndex (voices st ! 0)"
    using m True by (metis length_greater_0_conv length_map nth_map)
  with True ne show ?thesis
    unfolding p_def by (simp add: playback_def Let_def split_def)
qed

lemma record_input_idle: "\<not> isRecording st \<Longrightarrow> record_input x st = st"
  by (simp add: record_input_def)

lemma scan_skip: "length (slices st) \<le> 1 \<Longrightarrow> scan_update st = st"
  by (simp add: scan_update_def)

lemma scan_jump:
  assumes "1 < length (slices st)" and "Fin 0.01 < scanValue st"
    and "t = clamp_int (fl_to_int (fl_round (scanValue st * fl_of_int (int (length (slices st)) - 1))))
               0 (int (length (slices st)) - 1)"
    and "t \<noteq> lastScanTargetIndex st" and "active (slices st ! nat t)"
    and "1 < numVoices st" and "voices st \<noteq> []"
  shows "currentSliceIndex (scan_update st) = t"
    and "sliceIndex (voices (scan_update st) ! 0) = t"
    and "length (voices (scan_update st)) = length (voices st)"
  using assms by (simp_all add: scan_update_def Let_def)

lemma process_single: "fst (process [x] st) = fst (process_sample x st)"
  by (simp add: process.simps split_def Let_def)

lemma process_sample_current:
  "currentSliceIndex (fst (process_sample x st)) =
     currentSliceIndex (fst (playback (scan_update (record_input x st))))"
  "map sliceIndex (voices (fst (process_sample x st))) =
     map sliceIndex (voices (scan_update (record_input x st)))"
  by (simp_all add: process_sample_fst effects_frame playback_voices)

lemma process_no_scan:
  "length (slices st) \<le> 1 \<Longrightarrow>
   lastScanTargetIndex (fst (process xs st)) = lastScanTargetIndex st"
proof (induction xs arbitrary: st)
  case Nil
  show ?case by (simp add: process.simps)
next
  case (Cons x xs)
  have a: "length (slices (record_input x st)) \<le> 1"
    using Cons.prems by (simp add: record_input_frame)
  have "lastScanTargetIndex (fst (process_sample x st)) = lastScanTargetIndex st"
    by (simp add: process_sample_fst effects_frame playback_params scan_skip [OF a]
        record_input_params)
  moreover have "length (slices (fst (process_sample x st))) \<le> 1"
    using Cons.prems by (simp add: process_sample_frame)
  ultimately show ?case
    using Cons.IH [of "fst (process_sample x st)"] by (simp only: process_Cons_fst)
qed

lemma redistributeVoices_params:
  "scanValue (redistributeVoices st) = scanValue st"
  "lastScanTargetIndex (redistributeVoices st) = lastScanTargetIndex st"
  by (simp_all add: redistributeVoices_def split_def Let_def)

lemma setScan_voices:
  "length (voices (setScan s st)) = length (voices st)"
  "voices (setScan s st) ! 0 = voices st ! 0"
  "scanValue (setScan s st) = clamp s (Fin 0) (Fin 1)"
  "lastScanTargetIndex (setScan s st) = lastScanTargetIndex st"
  by (simp_all add: setScan_def Let_def redistributeVoices_voices redistributeVoices_params)

lemma setPolyVoices_params:
  "scanValue (setPolyVoices n st) = scanValue st"
  "lastScanTargetIndex (setPolyVoices n st) = lastScanTargetIndex st"
  by (simp_all add: setPolyVoices_def split_def Let_def)

lemma setRecording_params:
  "numVoices (setRecording b st) = numVoices st"
  "scanValue (setRecording b st) = scanValue st"
  "lastScanTargetIndex (setRecording b st) = lastScanTargetIndex st"
  by (simp_all add: setRecording_def Let_def redistributeVoices_params redistributeVoices_frame)

lemma rescanSlices_current:
  "0 < recordedLength st \<Longrightarrow>
   currentSliceIndex (rescanSlices thr t st) =
     (if int (length (slices (rescanSlices thr t st))) \<le> currentSliceIndex st
      then (if slices (rescanSlices thr t st) = [] then 0
            else int (length (slices (rescanSlices thr t st))) - 1)
      else currentSliceIndex st)"
  by (simp add: rescanSlices_def Let_def)

lemma two_onsets_state:
  fixes s4 :: engine
  defines "s4 \<equiv> setRecording False (fst (process [Fin 1, Fin 0, Fin 1, Fin 0, Fin 0, Fin 0]
                     (setRecording True (setMinSliceTime (Fin 0) (Alien4AudioEngine (Fin 1000) seed0)))))"
  shows "slices s4 = [\<lparr>startSample = 0, endSample = 1, peakAmplitude = Fin 1, active = True\<rparr>,
                      \<lparr>startSample = 2, endSample = 5, peakAmplitude = Fin 1, active = True\<rparr>]"
    and "recordedLength s4 = 6" and "currentSliceIndex s4 = 0" and "numVoices s4 = 1"
    and "\<not> isRecording s4" and "sampleRate s4 = Fin 1000"
    and "loopBuffer s4 = (\<lambda>i. Fin 0)(0 := Fin 1, 1 := Fin 0, 2 := Fin 1, 3 := Fin 0, 4 := Fin 0, 5 := Fin 0)"
    and "scanValue s4 = Fin 0" and "lastScanTargetIndex s4 = - 1"
proof -
  define s1 where "s1 = setMinSliceTime (Fin 0) (Alien4AudioEngine (Fin 1000) seed0)"
  define s2 where "s2 = setRecording True s1"
  define s3 where "s3 = fst (process [Fin 1, Fin 0, Fin 1, Fin 0, Fin 0, Fin 0] s2)"
  have s4: "s4 = setRecording False s3"
    by (simp only: s4_def s3_def s2_def s1_def)
  have 1: "minSliceTime s1 = Fin 0" "sampleRate s1 = Fin 1000" "\<not> isRecording s1"
    "numVoices s1 = 1" "scanValue s1 = Fin 0" "lastScanTargetIndex s1 = - 1" "slices s1 = []"
    by (simp_all add: s1_def setMinSliceTime_def Alien4AudioEngine_def Let_def clamp_unit_0)
  have 2: "recorder_of s2 = \<lparr>rc_recording = True, rc_position = 0, rc_length = 0,
              rc_lastAmp = Fin 0, rc_slices = [], rc_buffer = (\<lambda>i. Fin 0), rc_minSamples = 1\<rparr>"
    unfolding s2_def by (simp add: setRecording_start 1 getMinSliceTime_0 fl_arith)
  have f2: "isRecording s2" "sampleRate s2 = Fin 1000" "numVoices s2 = 1" "scanValue s2 = Fin 0"
    "lastScanTargetIndex s2 = - 1" "slices s2 = []"
    using 1 by (simp_all add: s2_def setRecording_start setRecording_params)
  have 3: "rc_slices (recorder_of s3) =
           [\<lparr>startSample = 0, endSample = 1, peakAmplitude = Fin 1, active = True\<rparr>,
            \<lparr>startSample = 2, endSample = 0, peakAmplitude = Fin 1, active = True\<rparr>]"
     "rc_length (recorder_of s3) = 6" "rc_minSamples (recorder_of s3) = 1"
     "rc_buffer (recorder_of s3) =
        (\<lambda>i. Fin 0)(0 := Fin 1, 1 := Fin 0, 2 := Fin 1, 3 := Fin 0, 4 := Fin 0, 5 := Fin 0)"
    unfolding s3_def recorder_of_process 2
    by (simp_all add: recorder_step_def detect_step_def upd_back_def newSlice_def
        LOOP_BUFFER_SIZE_def std_max_def fl_arith Let_def)
  have f3: "isRecording s3" "sampleRate s3 = Fin 1000" "numVoices s3 = 1" "scanValue s3 = Fin 0"
    "lastScanTargetIndex s3 = - 1"
    unfolding s3_def
    using process_frame [of "[Fin 1, Fin 0, Fin 1, Fin 0, Fin 0, Fin 0]" s2]
      process_params [of "[Fin 1, Fin 0, Fin 1, Fin 0, Fin 0, Fin 0]" s2]
      process_no_scan [of s2 "[Fin 1, Fin 0, Fin 1, Fin 0, Fin 0, Fin 0]"] f2
    by simp_all
  show "slices s4 = [\<lparr>startSample = 0, endSample = 1, peakAmplitude = Fin 1, active = True\<rparr>,
                      \<lparr>startSample = 2, endSample = 5, peakAmplitude = Fin 1, active = True\<rparr>]"
    and "recordedLength s4 = 6" and "currentSliceIndex s4 = 0" and "numVoices s4 = 1"
    and "\<not> isRecording s4" and "sampleRate s4 = Fin 1000"
    and "loopBuffer s4 = (\<lambda>i. Fin 0)(0 := Fin 1, 1 := Fin 0, 2 := Fin 1, 3 := Fin 0, 4 := Fin 0, 5 := Fin 0)"
    and "scanValue s4 = Fin 0" and "lastScanTargetIndex s4 = - 1"
    unfolding s4
    by (simp_all add: setRecording_stop [OF f3(1)] 3 f3 setRecording_params close_last_def
        upd_back_def)
qed

lemma six_samples_rescan:
  "detect_slices ((\<lambda>i. Fin 0)(0 := Fin 1, 1 := Fin 0, 2 := Fin 1, 3 := Fin 0, 4 := Fin 0, 5 := Fin 0))
     6 (Fin (1 / 2)) 3
   = [\<lparr>startSample = 2, endSample = 5, peakAmplitude = Fin 1, active = True\<rparr>]"
proof -
  have "[0..<6] = [0, 1, 2, 3, 4, 5::nat]" by (simp add: upt_rec)
  then show ?thesis
    by (simp add: detect_slices_def rescan_loop_def rescan_step_def detect_step_def
        close_last_def upd_back_def newSlice_def std_max_def fl_arith Let_def)
qed

lemma stale_voice_state:
  fixes s9 :: engine
  defines "s9 \<equiv> run stale_voice_run (Alien4AudioEngine (Fin 1000) seed0)"
  shows "slices s9 = [\<lparr>startSample = 2, endSample = 5, peakAmplitude = Fin 1, active = True\<rparr>]"
    and "recordedLength s9 = 6" and "currentSliceIndex s9 = 1" and "numVoices s9 = 2"
proof -
  define s4 where "s4 = setRecording False (fst (process [Fin 1, Fin 0, Fin 1, Fin 0, Fin 0, Fin 0]
                     (setRecording True (setMinSliceTime (Fin 0) (Alien4AudioEngine (Fin 1000) seed0)))))"
  define s5 where "s5 = setPolyVoices 2 s4"
  define s6 where "s6 = setScan (Fin 1) s5"
  define s7 where "s7 = fst (process [Fin 0] s6)"
  define s8 where "s8 = rescanSlices (Fin 0.5) (Fin 0.0035) s7"
  have s9: "s9 = fst (process [Fin 0] s8)"
    by (simp only: s9_def run_def stale_voice_run_def fold_simps apply_op.simps
        s8_def s7_def s6_def s5_def s4_def)
  note f4 = two_onsets_state [folded s4_def]
  \<comment> \<open>two voices\<close>
  have g: "clamp_int 2 1 8 = 2" by (simp add: clamp_int_def)
  have c5: "clamp_int 2 1 8 \<noteq> numVoices s4" "slices s4 \<noteq> []" "1 < clamp_int 2 1 8"
    by (simp_all add: f4 g)
  have f5: "slices s5 = slices s4" "recordedLength s5 = 6" "currentSliceIndex s5 = 0"
    "numVoices s5 = 2" "\<not> isRecording s5" "sampleRate s5 = Fin 1000"
    "loopBuffer s5 = loopBuffer s4" "scanValue s5 = Fin 0" "lastScanTargetIndex s5 = - 1"
    "length (voices s5) = 2" "sliceIndex (voices s5 ! 0) = 0"
    unfolding s5_def
    using setPolyVoices_grow(1-3) [OF c5]
    by (simp_all add: setPolyVoices_frame setPolyVoices_params f4 g)
  \<comment> \<open>scan to the last slice\<close>
  have f6: "slices s6 = slices s4" "recordedLength s6 = 6" "currentSliceIndex s6 = 0"
    "numVoices s6 = 2" "\<not> isRecording s6" "sampleRate s6 = Fin 1000"
    "loopBuffer s6 = loopBuffer s4" "scanValue s6 = Fin 1" "lastScanTargetIndex s6 = - 1"
    "length (voices s6) = 2" "sliceIndex (voices s6 ! 0) = 0"
    unfolding s6_def
    by (simp_all add: setScan_frame setScan_voices f5 clamp_unit_1)
  \<comment> \<open>render one sample: the scan jumps to slice 1\<close>
  define t6 where "t6 = scan_update (record_input (Fin 0) s6)"
  have ri6: "record_input (Fin 0) s6 = s6" using f6 by (simp add: record_input_idle)
  have v6: "voices s6 \<noteq> []" using f6(10) by auto
  have j6: "currentSliceIndex t6 = 1" "sliceIndex (voices t6 ! 0) = 1" "length (voices t6) = 2"
    unfolding t6_def ri6
    using scan_jump [of s6 1] v6
    by (simp_all add: f6 f4 fl_arith fl_of_int_def clamp_int_def)
  have k6: "recordedLength t6 = 6" "numVoices t6 = 2" "slices t6 = slices s4"
    "loopBuffer t6 = loopBuffer s4" "\<not> isRecording t6" "sampleRate t6 = Fin 1000"
    unfolding t6_def ri6 by (simp_all add: scan_update_frame f6)
  have vt6: "voices t6 \<noteq> []" using j6(3) by auto
  have m7: "map sliceIndex (voices s7) = map sliceIndex (voices t6)"
    unfolding s7_def process_single t6_def by (rule process_sample_current)
  have f7: "slices s7 = slices s4" "recordedLength s7 = 6" "numVoices s7 = 2"
    "\<not> isRecording s7" "sampleRate s7 = Fin 1000" "loopBuffer s7 = loopBuffer s4"
    unfolding s7_def process_single by (simp_all add: process_sample_frame f6)
  have c7: "currentSliceIndex s7 = 1"
    unfolding s7_def process_single process_sample_current t6_def [symmetric] playback_current
    using vt6 by (simp add: k6 j6)
  have l7: "length (voices s7) = 2" using m7 j6(3) by (metis length_map)
  have i7: "sliceIndex (voices s7 ! 0) = 1"
    using m7 j6 l7 by (metis nth_map zero_less_numeral)
  \<comment> \<open>rescan with a minimum of three samples\<close>
  have m8: "fl_to_int (Fin 0.0035 * sampleRate s7) = 3"
  proof -
    have "\<lfloor>(7::real) / 2\<rfloor> = 3" by linarith
    then show ?thesis by (simp add: f7 fl_arith)
  qed
  have sl8: "slices s8 = [\<lparr>startSample = 2, endSample = 5, peakAmplitude = Fin 1, active = True\<rparr>]"
    unfolding s8_def using m8 six_samples_rescan
    by (simp add: rescanSlices_slices f7 f4)
  have f8: "recordedLength s8 = 6" "numVoices s8 = 2" "\<not> isRecording s8"
    "voices s8 = voices s7"
    unfolding s8_def by (simp_all add: rescanSlices_frame f7)
  \<comment> \<open>render one more sample: voice 0 still names slice 1\<close>
  have ri8: "record_input (Fin 0) s8 = s8" using f8 by (simp add: record_input_idle)
  have su8: "scan_update s8 = s8" by (rule scan_skip) (simp add: sl8)
  have v8: "voices s8 \<noteq> []" using l7 f8 by auto
  show "slices s9 = [\<lparr>startSample = 2, endSample = 5, peakAmplitude = Fin 1, active = True\<rparr>]"
    and "recordedLength s9 = 6" and "numVoices s9 = 2"
    unfolding s9 process_single by (simp_all add: process_sample_frame sl8 f8)
  show "currentSliceIndex s9 = 1"
    unfolding s9 process_single process_sample_current ri8 su8 playback_current
    using v8 by (simp add: f8 i7)
qed

text \<open>
  Claim C10 at a failing input (the operations of \<open>stale_voice_run\<close> on a 1 kHz
  engine). After the last render call the committed list has one slice, so the valid
  range is \<open>[0, 0]\<close>, and \<^verbatim>\<open>getCurrentSlice()\<close> returns 1: the rescan clamped
  \<open>currentSliceIndex\<close> but left \<open>voices[0].sliceIndex\<close> at 1, and the multi-voice
  path copies that index back into \<open>currentSliceIndex\<close>.
\<close>

theorem current_slice_out_of_range:
  "getNumSlices (run stale_voice_run (Alien4AudioEngine (Fin 1000) seed0)) = 1 \<and>
   getCurrentSlice (run stale_voice_run (Alien4AudioEngine (Fin 1000) seed0)) = 1 \<and>
   \<not> current_slice_ok (run stale_voice_run (Alien4AudioEngine (Fin 1000) seed0))"
  by (simp add: getNumSlices_def getCurrentSlice_def current_slice_ok_def stale_voice_state)

text \<open>
  What does hold of the current slice index: a commit, a clear and a rescan leave it
  in range, and so does a render call in single-voice mode.
\<close>

lemma commit_current_in_range: "isRecording st \<Longrightarrow> current_slice_ok (setRecording False st)"
  by (auto simp: current_slice_ok_def getCurrentSlice_def getNumSlices_def setRecording_stop)

lemma clear_current_in_range: "current_slice_ok (clear st)"
  by (simp add: current_slice_ok_def getCurrentSlice_def clear_def)

lemma rescan_current_in_range:
  assumes "0 < recordedLength st" and "0 \<le> currentSliceIndex st"
  shows "current_slice_ok (rescanSlices thr t st)"
  using assms
  by (auto simp: current_slice_ok_def getCurrentSlice_def getNumSlices_def
      rescanSlices_current)

lemma scan_update_current_in_range:
  assumes "current_slice_ok st"
  shows "current_slice_ok (scan_update st)"
  using assms
  by (auto simp: current_slice_ok_def getCurrentSlice_def getNumSlices_def scan_update_def
      clamp_int_def Let_def)

lemma single_voice_current_in_range:
  assumes "numVoices st = 1" and "current_slice_ok st"
  shows "current_slice_ok (fst (process_sample x st))"
proof -
  let ?s = "scan_update (record_input x st)"
  have "current_slice_ok (record_input x st)"
    using assms(2)
    by (auto simp: current_slice_ok_def getCurrentSlice_def getNumSlices_def record_input_frame
        split: if_splits)
  then have ok: "current_slice_ok ?s" by (rule scan_update_current_in_range)
  have nv: "numVoices ?s = 1"
    using assms(1) by (simp add: scan_update_frame record_input_frame)
  have "currentSliceIndex (fst (process_sample x st)) = currentSliceIndex ?s"
    by (simp add: process_sample_current playback_current nv)
  moreover have "slices (fst (process_sample x st)) = slices ?s"
    by (simp add: process_sample_frame scan_update_frame record_input_frame)
  ultimately show ?thesis
    using ok
    by (auto simp: current_slice_ok_def getCurrentSlice_def getNumSlices_def split: if_splits)
qed

subsection \<open>Binding of the voices after a resize\<close>

lemma sliceDist_range: "0 < n \<Longrightarrow> 0 \<le> fst (sliceDist n r) \<and> fst (sliceDist n r) < int n"
  by (simp add: sliceDist_def)

lemma retry_loop_range:
  assumes "0 < n" and "0 \<le> t" and "t < int n"
  shows "0 \<le> fst (retry_loop k bad n t r) \<and> fst (retry_loop k bad n t r) < int n"
  using assms(2,3)
proof (induction k arbitrary: t r)
  case 0
  then show ?case by simp
next
  case (Suc k)
  show ?case
  proof (cases "bad t")
    case False
    with Suc.prems show ?thesis by simp
  next
    case True
    obtain t1 r1 where d: "sliceDist n r = (t1, r1)" by (cases "sliceDist n r") auto
    with sliceDist_range [OF assms(1), of r] have "0 \<le> t1" "t1 < int n" by simp_all
    from Suc.IH [OF this] True d show ?thesis by simp
  qed
qed

lemma poly_voice_index:
  assumes "i < length (fst p)"
  shows "sliceIndex (fst (poly_voice st i p) ! i) = currentSliceIndex st \<or>
         \<not> poly_invalid (slices st) (recordedLength st) (sliceIndex (fst (poly_voice st i p) ! i))"
  using assms by (cases p) (auto simp: poly_voice_def Let_def split_def)

lemma poly_voice_index_nonneg:
  assumes "i < length (fst p)" and "slices st \<noteq> []" and "0 \<le> currentSliceIndex st"
  shows "0 \<le> sliceIndex (fst (poly_voice st i p) ! i)"
proof -
  obtain vs r where p: "p = (vs, r)" by (cases p)
  let ?n = "length (slices st)"
  have n: "0 < ?n" using assms(2) by simp
  obtain t0 r1 where d: "sliceDist ?n r = (t0, r1)" by (cases "sliceDist ?n r") auto
  with sliceDist_range [OF n, of r] have t0: "0 \<le> t0" "t0 < int ?n" by simp_all
  have "0 \<le> fst (retry_loop 20 (poly_invalid (slices st) (recordedLength st)) ?n t0 r1)"
    using retry_loop_range [OF n t0] by simp
  then show ?thesis
    using assms(1,3) by (auto simp: p poly_voice_def Let_def split_def d)
qed

lemma bound_ok_iff:
  "bound_ok st v =
     (0 \<le> sliceIndex v \<and> \<not> poly_invalid (slices st) (recordedLength st) (sliceIndex v))"
  by (auto simp: bound_ok_def poly_invalid_def)

lemma committed_current_valid:
  assumes "slices_wf (recordedLength st) (slices st)"
    and "0 \<le> currentSliceIndex st" and "currentSliceIndex st < int (length (slices st))"
  shows "\<not> poly_invalid (slices st) (recordedLength st) (currentSliceIndex st)"
proof -
  have "slices st ! nat (currentSliceIndex st) \<in> set (slices st)"
    using assms(2,3) by simp
  with assms(1) have "committed_ok (recordedLength st) (slices st ! nat (currentSliceIndex st))"
    by (simp add: slices_wf_def list_all_iff)
  then show ?thesis
    using assms(3) by (simp add: poly_invalid_def committed_ok_def)
qed

lemma poly_fold_valid:
  assumes wf: "slices_wf (recordedLength st) (slices st)" and ne: "slices st \<noteq> []"
    and c: "0 \<le> currentSliceIndex st" "currentSliceIndex st < int (length (slices st))"
    and len: "k \<le> length vs"
  shows "\<forall>j<k. bound_ok st (fst (fold (poly_voice st) [0..<k] (vs, r)) ! j)"
  using len
proof (induction k)
  case 0
  show ?case by simp
next
  case (Suc k)
  define p where "p = fold (poly_voice st) [0..<k] (vs, r)"
  have lp: "length (fst p) = length vs" by (simp add: p_def poly_fold_length)
  with Suc.prems have k: "k < length (fst p)" by simp
  have step: "fold (poly_voice st) [0..<Suc k] (vs, r) = poly_voice st k p"
    by (simp add: p_def)
  have old: "\<forall>j<k. bound_ok st (fst p ! j)"
    using Suc.IH Suc.prems by (simp add: p_def)
  have new: "bound_ok st (fst (poly_voice st k p) ! k)"
    using poly_voice_index [OF k, of st] poly_voice_index_nonneg [OF k ne c(1)]
      committed_current_valid [OF wf c]
    by (auto simp: bound_ok_iff)
  show ?case
    unfolding step
  proof (intro allI impI)
    fix j assume "j < Suc k"
    then consider "j < k" | "j = k" by linarith
    then show "bound_ok st (fst (poly_voice st k p) ! j)"
    proof cases
      case 1
      then have "fst (poly_voice st k p) ! j = fst p ! j"
        by (simp add: poly_voice_other)
      with old 1 show ?thesis by simp
    next
      case 2
      with new show ?thesis by simp
    qed
  qed
qed

lemma bound_ok_cong:
  "slices a = slices b \<Longrightarrow> recordedLength a = recordedLength b \<Longrightarrow> bound_ok a v = bound_ok b v"
  by (simp add: bound_ok_def)

text \<open>
  When the current slice index is in range at the call, the resize from 1 to 8 voices
  binds every voice to an active slice that starts inside the recording.
\<close>

lemma setPolyVoices_binds_valid:
  assumes wf: "slices_wf (recordedLength st) (slices st)" and ne: "slices st \<noteq> []"
    and one: "numVoices st = 1"
    and c: "0 \<le> currentSliceIndex st" "currentSliceIndex st < int (length (slices st))"
  shows "numVoices (setPolyVoices 8 st) = 8 \<and> length (voices (setPolyVoices 8 st)) = 8 \<and>
         list_all (bound_ok (setPolyVoices 8 st)) (voices (setPolyVoices 8 st))"
proof -
  have g: "clamp_int 8 1 8 = 8" by (simp add: clamp_int_def)
  have c8: "clamp_int 8 1 8 \<noteq> numVoices st" "1 < clamp_int 8 1 8" by (simp_all add: g one)
  note grow = setPolyVoices_grow [OF c8(1) ne c8(2), unfolded g]
  let ?st1 = "st\<lparr>numVoices := 8, voices := resize_voices (nat 8) (voices st)\<rparr>"
  have "\<forall>j<8. bound_ok ?st1 (fst (fold (poly_voice ?st1) [0..<8]
                                   (resize_voices 8 (voices st), randomEngine st)) ! j)"
    by (rule poly_fold_valid) (use wf ne c in \<open>simp_all add: resize_voices_length\<close>)
  then have "\<forall>j<8. bound_ok (setPolyVoices 8 st) (voices (setPolyVoices 8 st) ! j)"
    using grow(4) bound_ok_cong [of "setPolyVoices 8 st" ?st1]
    by (simp add: setPolyVoices_frame)
  then have "list_all (bound_ok (setPolyVoices 8 st)) (voices (setPolyVoices 8 st))"
    using grow(2) by (simp add: list_all_length)
  with grow show ?thesis by simp
qed

lemma stale_resize_state:
  fixes s10 s11 :: engine
  defines "s10 \<equiv> run (stale_voice_run @ [SetPolyVoices 1]) (Alien4AudioEngine (Fin 1000) seed0)"
    and "s11 \<equiv> run stale_resize_run (Alien4AudioEngine (Fin 1000) seed0)"
  shows "s11 = setPolyVoices 8 s10" and "numVoices s10 = 1"
    and "slices s10 = [\<lparr>startSample = 2, endSample = 5, peakAmplitude = Fin 1, active = True\<rparr>]"
    and "numVoices s11 = 8" and "length (voices s11) = 8"
    and "slices s11 = [\<lparr>startSample = 2, endSample = 5, peakAmplitude = Fin 1, active = True\<rparr>]"
    and "sliceIndex (voices s11 ! 0) = 1"
proof -
  define s9 where "s9 = run stale_voice_run (Alien4AudioEngine (Fin 1000) seed0)"
  note f9 = stale_voice_state [folded s9_def]
  have s10: "s10 = setPolyVoices 1 s9"
    by (simp add: s10_def s9_def run_def)
  show s11: "s11 = setPolyVoices 8 s10"
    by (simp add: s11_def s10_def stale_resize_run_def run_def)
  have n9: "numVoices s9 \<noteq> 1" by (simp add: f9)
  show f10: "numVoices s10 = 1"
    "slices s10 = [\<lparr>startSample = 2, endSample = 5, peakAmplitude = Fin 1, active = True\<rparr>]"
    unfolding s10 using setPolyVoices_single [OF n9, of 1]
    by (simp_all add: setPolyVoices_frame f9)
  have c10: "currentSliceIndex s10 = 1"
    unfolding s10 by (simp add: setPolyVoices_frame f9)
  have g: "clamp_int 8 1 8 = 8" by (simp add: clamp_int_def)
  have c8: "clamp_int 8 1 8 \<noteq> numVoices s10" "slices s10 \<noteq> []" "1 < clamp_int 8 1 8"
    by (simp_all add: g f10)
  show "numVoices s11 = 8" "length (voices s11) = 8"
    "slices s11 = [\<lparr>startSample = 2, endSample = 5, peakAmplitude = Fin 1, active = True\<rparr>]"
    "sliceIndex (voices s11 ! 0) = 1"
    unfolding s11 using setPolyVoices_grow(1-3) [OF c8]
    by (simp_all add: g setPolyVoices_frame f10 c10)
qed

text \<open>
  Claim C3 at a failing input (the operations of \<open>stale_resize_run\<close> on a 1 kHz
  engine). The pool is resized from 1 to 8 voices while the committed list holds one
  slice; voice 0 inherits \<open>currentSliceIndex = 1\<close>, which names no slice of the list.
\<close>

theorem resize_binds_voice_out_of_range:
  "numVoices (run (stale_voice_run @ [SetPolyVoices 1]) (Alien4AudioEngine (Fin 1000) seed0)) = 1 \<and>
   run stale_resize_run (Alien4AudioEngine (Fin 1000) seed0)
     = setPolyVoices 8 (run (stale_voice_run @ [SetPolyVoices 1]) (Alien4AudioEngine (Fin 1000) seed0)) \<and>
   numVoices (run stale_resize_run (Alien4AudioEngine (Fin 1000) seed0)) = 8 \<and>
   length (slices (run stale_resize_run (Alien4AudioEngine (Fin 1000) seed0))) = 1 \<and>
   sliceIndex (voices (run stale_resize_run (Alien4AudioEngine (Fin 1000) seed0)) ! 0) = 1 \<and>
   \<not> bound_ok (run stale_resize_run (Alien4AudioEngine (Fin 1000) seed0))
         (voices (run stale_resize_run (Alien4AudioEngine (Fin 1000) seed0)) ! 0)"
proof (intro conjI)
  show "\<not> bound_ok (run stale_resize_run (Alien4AudioEngine (Fin 1000) seed0))
         (voices (run stale_resize_run (Alien4AudioEngine (Fin 1000) seed0)) ! 0)"
    by (simp add: bound_ok_def stale_resize_state(6,7))
  show "length (slices (run stale_resize_run (Alien4AudioEngine (Fin 1000) seed0))) = 1"
    by (simp add: stale_resize_state(6))
qed (rule stale_resize_state)+

subsection \<open>The reverb's diffusion stages\<close>

lemma length_four: "length xs = 4 \<Longrightarrow> \<exists>a b c d. xs = [a, b, c, d]"
  by (cases xs; cases "tl xs"; cases "tl (tl xs)"; cases "tl (tl (tl xs))") auto

text \<open>
  Claim C8, amended. For each channel the reverb's per-sample output is the sum of
  that channel's four comb filters scaled by 0.25, passed through four allpass stages
  in series and then through the one-pole highpass. The four allpass stages are one
  set shared by both channels: in every sample, stage \<open>j\<close> filters the left sample
  and then the right sample on the same buffer, at consecutive positions.
\<close>

theorem reverb_sample_four_shared_stages:
  assumes "reverb_wf r"
  shows "reverb_sample feedback dampingCoeff roomScale r leftIn rightIn
           = reverb_sample_shared feedback dampingCoeff roomScale r leftIn rightIn"
proof -
  obtain a0 a1 a2 a3 where ab: "allpassBuffers r = [a0, a1, a2, a3]"
    using assms length_four [of "allpassBuffers r"] by (auto simp: reverb_wf_def)
  obtain j0 j1 j2 j3 where ai: "allpassIndices r = [j0, j1, j2, j3]"
    using assms length_four [of "allpassIndices r"] by (auto simp: reverb_wf_def)
  show ?thesis
    by (simp add: reverb_sample_def reverb_sample_shared_def allpass_step_def ab ai
        Let_def split_def)
qed

theorem reverb_sample_four_shared_stages_witness:
  "reverb_sample (Fin 0.791) (Fin 0.41) (Fin 1) (ReverbProcessor_init (Fin 48000)) (Fin 1) (Fin 1)
     = reverb_sample_shared (Fin 0.791) (Fin 0.41) (Fin 1) (ReverbProcessor_init (Fin 48000))
         (Fin 1) (Fin 1)"
  using reverb_sample_four_shared_stages [of "ReverbProcessor_init (Fin 48000)"]
  by (simp add: reverb_wf_def ReverbProcessor_init_def)

lemma c_rem_succ: "0 < k \<Longrightarrow> c_rem (int (m mod k) + 1) (int k) = int (Suc m mod k)"
proof -
  assume k: "0 < k"
  have "int (Suc m mod k) = int (Suc (m mod k) mod k)"
    by (simp add: mod_Suc_eq)
  also have "\<dots> = int (Suc (m mod k)) mod int k"
    by (simp only: zmod_int)
  also have "int (Suc (m mod k)) = int (m mod k) + 1" by simp
  finally have "(int (m mod k) + 1) mod int k = int (Suc m mod k)" by simp
  moreover have "0 < int (m mod k) + 1" by simp
  ultimately show ?thesis
    by (simp add: c_rem_def)
qed

lemma replicate_update_same: "(replicate N a)[i := a] = replicate N a"
  by (cases "i < N") (auto simp: list_eq_iff_nth_eq nth_list_update list_update_beyond)

lemma impulse_cell_kept: "i \<noteq> 0 \<Longrightarrow> ((replicate N a)[0 := b])[i := a] = (replicate N a)[0 := b]"
  by (cases "i < N") (auto simp: list_eq_iff_nth_eq nth_list_update list_update_beyond)

lemma impulse_cell_read: "i \<noteq> 0 \<Longrightarrow> i < N \<Longrightarrow> ((replicate N a)[0 := b]) ! i = a"
  by simp

lemmas c_rem_sizes =
  c_rem_succ [of 1557, simplified] c_rem_succ [of 1617, simplified]
  c_rem_succ [of 1491, simplified] c_rem_succ [of 1422, simplified]
  c_rem_succ [of 1277, simplified] c_rem_succ [of 1356, simplified]
  c_rem_succ [of 1188, simplified] c_rem_succ [of 1116, simplified]
  c_rem_succ [of 556, simplified] c_rem_succ [of 441, simplified]
  c_rem_succ [of 341, simplified] c_rem_succ [of 225, simplified]

lemma hp_cutoff_48k:
  "std_max (Fin 0.001) (std_min (Fin 0.1) (Fin 100 / (Fin 48000 * Fin 0.5))) = Fin (1 / 240)"
  by (simp add: std_max_def std_min_def fl_arith)

lemma quiet_step:
  assumes n: "1 \<le> n" "n < 1116"
  shows "reverb_sample (Fin fb) (Fin dc) (Fin rs) (after_impulse n) (Fin 0) (Fin 0)
           = (after_impulse (Suc n), Fin 0, Fin 0)"
proof -
  have nz: "n mod 1277 \<noteq> 0" "n mod 1356 \<noteq> 0" "n mod 1188 \<noteq> 0" "n mod 1116 \<noteq> 0"
    using n by simp_all
  show ?thesis
    unfolding reverb_sample_def after_impulse_def
    by (simp add: comb_step_def processCombFilter_def allpass_step_def processAllpassFilter_def
        Let_def fl_arith c_rem_sizes replicate_update_same impulse_cell_kept nz
        std_max_def std_min_def)
qed

lemma quiet_loop:
  assumes "1 \<le> n" and "n + k \<le> 1116"
  shows "reverb_loop (Fin fb) (Fin dc) (Fin rs) (after_impulse n) (replicate k (Fin 0, Fin 0))
           = (after_impulse (n + k), replicate k (Fin 0, Fin 0))"
  using assms
proof (induction k arbitrary: n)
  case 0
  show ?case by simp
next
  case (Suc k)
  then have n: "1 \<le> n" "n < 1116" by simp_all
  have "reverb_loop (Fin fb) (Fin dc) (Fin rs) (after_impulse (Suc n)) (replicate k (Fin 0, Fin 0))
          = (after_impulse (Suc n + k), replicate k (Fin 0, Fin 0))"
    by (rule Suc.IH) (use Suc.prems in simp_all)
  then show ?case
    by (simp add: quiet_step [OF n])
qed

lemma init_params:
  "std_max (Fin 0) (std_min (Fin 0.995) (Fin 0.5 + decay (ReverbProcessor_init sr) * Fin 0.485))
     = Fin 0.791"
  "Fin 0.05 + damping (ReverbProcessor_init sr) * Fin 0.9 = Fin 0.41"
  "Fin 0.3 + roomSize (ReverbProcessor_init sr) * Fin 1.4 = Fin 1"
  by (simp_all add: ReverbProcessor_init_def std_max_def std_min_def fl_arith)

lemma impulse_step:
  "reverb_sample (Fin 0.791) (Fin 0.41) (Fin 1) (ReverbProcessor_init (Fin 48000)) (Fin 0) (Fin 1)
     = (after_impulse 1, Fin 0, Fin 0)"
  unfolding reverb_sample_def after_impulse_def ReverbProcessor_init_def
  by (simp add: comb_step_def processCombFilter_def allpass_step_def processAllpassFilter_def
      Let_def fl_arith c_rem_def replicate_update_same std_max_def std_min_def
      COMB_SIZES_def ALLPASS_SIZES_def)

lemma right_impulse_run:
  "reverb_process (ReverbProcessor_init (Fin 48000)) right_impulse
     = (after_impulse 1116, replicate 1116 (Fin 0, Fin 0))"
proof -
  have "reverb_loop (Fin 0.791) (Fin 0.41) (Fin 1) (after_impulse 1) (replicate 1115 (Fin 0, Fin 0))
          = (after_impulse (1 + 1115), replicate 1115 (Fin 0, Fin 0))"
    by (rule quiet_loop) simp_all
  then have loop: "reverb_loop (Fin 0.791) (Fin 0.41) (Fin 1) (after_impulse 1)
                     (replicate 1115 (Fin 0, Fin 0))
                   = (after_impulse 1116, replicate 1115 (Fin 0, Fin 0))"
    by simp
  have "(1116::nat) = Suc 1115" by simp
  then have rep: "replicate 1116 (Fin 0, Fin 0 :: fl) = (Fin 0, Fin 0) # replicate 1115 (Fin 0, Fin 0)"
    by (simp only: replicate_Suc)
  have "reverb_loop (Fin 0.791) (Fin 0.41) (Fin 1) (ReverbProcessor_init (Fin 48000))
          ((Fin 0, Fin 1) # replicate 1115 (Fin 0, Fin 0))
        = (after_impulse 1116, (Fin 0, Fin 0) # replicate 1115 (Fin 0, Fin 0))"
    by (simp only: reverb_loop.simps impulse_step loop Let_def split_conv)
  then show ?thesis
    unfolding reverb_process_def Let_def init_params right_impulse_def rep .
qed

lemma returned_impulse_a:
  "snd (reverb_sample (Fin 0.791) (Fin 0.41) (Fin 1) (after_impulse 1116) (Fin 0) (Fin 0))
     = (Fin 0, Fin (239 / 15360))"
  unfolding reverb_sample_def after_impulse_def
  by (simp add: comb_step_def processCombFilter_def allpass_step_def 
      processAllpassFilter_def Let_def fl_arith c_rem_def std_max_def std_min_def)

lemma returned_impulse_b:
  "snd (reverb_sample_claimed (Fin 0.791) (Fin 0.41) (Fin 1) (after_impulse 1116) (Fin 0) (Fin 0))
     = (Fin 0, Fin (239 / 3840))"
  unfolding reverb_sample_claimed_def after_impulse_def
  by (simp add: comb_step_def processCombFilter_def allpass_own_def
      processAllpassFilter_def Let_def fl_arith c_rem_def std_max_def std_min_def)

text \<open>
  Claim C8 as stated fails. A new 48 kHz reverb receives a unit impulse on the right
  channel and 1115 silent samples. On the next silent sample the shortest right comb
  filter returns the impulse; the code's right output is \<open>239 / 15360\<close> (the sum
  0.25 attenuated by four allpass stages), while two stages of the channel's own would
  give \<open>239 / 3840\<close>.
\<close>

theorem reverb_two_own_stages_counterexample:
  "snd (reverb_sample (Fin 0.791) (Fin 0.41) (Fin 1)
          (fst (reverb_process (ReverbProcessor_init (Fin 48000)) right_impulse)) (Fin 0) (Fin 0))
     = (Fin 0, Fin (239 / 15360)) \<and>
   snd (reverb_sample_claimed (Fin 0.791) (Fin 0.41) (Fin 1)
          (fst (reverb_process (ReverbProcessor_init (Fin 48000)) right_impulse)) (Fin 0) (Fin 0))
     = (Fin 0, Fin (239 / 3840)) \<and>
   reverb_sample (Fin 0.791) (Fin 0.41) (Fin 1)
          (fst (reverb_process (ReverbProcessor_init (Fin 48000)) right_impulse)) (Fin 0) (Fin 0)
     \<noteq> reverb_sample_claimed (Fin 0.791) (Fin 0.41) (Fin 1)
          (fst (reverb_process (ReverbProcessor_init (Fin 48000)) right_impulse)) (Fin 0) (Fin 0)"
proof -
  have st: "fst (reverb_process (ReverbProcessor_init (Fin 48000)) right_impulse)
              = after_impulse 1116"
    by (simp only: right_impulse_run fst_conv)
  have ne: "reverb_sample (Fin 0.791) (Fin 0.41) (Fin 1) (after_impulse 1116) (Fin 0) (Fin 0)
          \<noteq> reverb_sample_claimed (Fin 0.791) (Fin 0.41) (Fin 1) (after_impulse 1116)
                 (Fin 0) (Fin 0)"
  proof
    assume "reverb_sample (Fin 0.791) (Fin 0.41) (Fin 1) (after_impulse 1116) (Fin 0) (Fin 0)
          = reverb_sample_claimed (Fin 0.791) (Fin 0.41) (Fin 1) (after_impulse 1116)
                 (Fin 0) (Fin 0)"
    then have "snd (reverb_sample (Fin 0.791) (Fin 0.41) (Fin 1) (after_impulse 1116) (Fin 0) (Fin 0))
          = snd (reverb_sample_claimed (Fin 0.791) (Fin 0.41) (Fin 1) (after_impulse 1116)
                 (Fin 0) (Fin 0))"
      by (rule arg_cong)
    then have "(Fin 0, Fin (239 / 15360)) = (Fin 0, Fin (239 / 3840))"
      by (simp only: returned_impulse_a returned_impulse_b)
    then show False by simp
  qed
  show ?thesis
    unfolding st
    using returned_impulse_a returned_impulse_b ne by (intro conjI)
qed

end
